theory Spec2Isabelle
  imports Main
begin

section \<open>VantageVision server: data model\<close>

text \<open>
  The service of \<^verbatim>\<open>server.js\<close>: Express route handlers over two Mongoose
  collections (Session, Clip), a temporary upload directory, a video store
  (Cloudinary) and an inference service (Gemini). A handler is a function from the
  world before the request to the world after it and the HTTP response; one request
  runs at a time. A rejected promise or a thrown \<^verbatim>\<open>Error\<close> is the value
  \<open>Inl message\<close>. The handlers embedded are \<^verbatim>\<open>/api/delete-session\<close>,
  \<^verbatim>\<open>/api/clip-chat\<close> and \<^verbatim>\<open>/api/chat\<close>, with \<^verbatim>\<open>generateWithFallback\<close>; each runs behind
  \<^verbatim>\<open>requireAuth\<close>, so its \<open>uid\<close> is the caller's \<^verbatim>\<open>req.auth.userId\<close>.
\<close>

type_synonym 'a result = "string + 'a"

record chat_turn =
  t_role :: string
  t_text :: string

text \<open>\<^verbatim>\<open>PlayerProfileSchema\<close>; dates are milliseconds, as \<^verbatim>\<open>Date.now()\<close> gives them.\<close>

record player_profile =
  r_identifier :: string
  r_position :: string
  r_grade :: string
  r_notes :: "string list"
  r_weaknesses :: "string list"
  r_last_updated :: nat

text \<open>
  One element of \<^verbatim>\<open>players_detected\<close> in the model's reply. The handler tests
  \<^verbatim>\<open>p.weakness\<close> for truthiness, so that member may be absent.
\<close>

record detected_player =
  p_identifier :: string
  p_position :: string
  p_grade :: string
  p_observation :: string
  p_weakness :: "string option"

record formation_data =
  o_formation :: "string option"
  d_formation :: "string option"

text \<open>
  The parsed reply, \<^verbatim>\<open>json\<close> in the handler, seen through the members the code reads:
  \<^verbatim>\<open>title\<close>, \<^verbatim>\<open>data\<close>, \<^verbatim>\<open>scouting_report.summary\<close> and \<^verbatim>\<open>players_detected\<close>; \<open>None\<close>
  is a member that is absent (or falsy where the code tests it). The other members
  are carried in \<open>a_other\<close> untouched.
\<close>

record analysis =
  a_title :: "string option"
  a_data :: "formation_data option"
  a_summary :: "string option"
  a_players :: "detected_player list option"
  a_other :: string

record session =
  s_id :: nat
  s_sessionId :: string
  s_owner :: string
  s_title :: string
  s_type :: string
  s_sport :: string
  s_history :: "chat_turn list"
  s_roster :: "player_profile list"

record clip =
  c_id :: nat
  c_owner :: string
  c_sessionId :: string
  c_sport :: string
  c_title :: string
  c_formation :: string
  c_o_formation :: "string option"
  c_d_formation :: "string option"
  c_section :: string
  c_videoUrl :: string
  c_publicId :: "string option"
  c_geminiFileUri :: "string option"
  c_fullData :: "analysis option"
  c_chatHistory :: "chat_turn list"
  c_snapshots :: "string list"
  c_createdAt :: nat

text \<open>JavaScript truthiness of a string that may be \<^verbatim>\<open>undefined\<close>.\<close>

fun truthy :: "string option \<Rightarrow> bool" where
  "truthy None = False"
| "truthy (Some s) = (s \<noteq> [])"

text \<open>A value that may be \<^verbatim>\<open>undefined\<close>, inside a template literal.\<close>

fun js_str :: "string option \<Rightarrow> string" where
  "js_str None = ''undefined''"
| "js_str (Some s) = s"

section \<open>Model-fallback invoker\<close>

definition MODEL_FALLBACK_LIST :: "string list" where
  "MODEL_FALLBACK_LIST = [''gemini-2.5-pro'', ''gemini-2.5-flash'', ''gemini-2.0-flash'']"

text \<open>
  The \<^verbatim>\<open>for\<close> loop of \<^verbatim>\<open>generateWithFallback\<close> over the identifiers still to try.
  \<open>gen\<close> is the inference service: what \<^verbatim>\<open>generateContent\<close> does for a model
  identifier on this request's prompt, \<open>Inl m\<close> a rejection with message \<open>m\<close>.
  \<open>tried\<close> logs the identifiers called; \<open>lastError\<close> is \<open>None\<close> for \<^verbatim>\<open>null\<close>.
\<close>

fun fallback_loop ::
  "(string \<Rightarrow> 'r result) \<Rightarrow> string list \<Rightarrow> string option \<Rightarrow> string list
     \<Rightarrow> string list \<times> 'r result" where
  "fallback_loop gen [] lastError tried =
     (tried, Inl (''Analysis failed. Last error: '' @ js_str lastError))"
| "fallback_loop gen (modelName # rest) lastError tried =
     (case gen modelName of
        Inr res \<Rightarrow> (tried @ [modelName], Inr res)
      | Inl err \<Rightarrow> fallback_loop gen rest (Some err) (tried @ [modelName]))"

definition generateWithFallback :: "(string \<Rightarrow> 'r result) \<Rightarrow> string list \<times> 'r result" where
  "generateWithFallback gen = fallback_loop gen MODEL_FALLBACK_LIST None []"

section \<open>The world of a request\<close>

text \<open>
  \<^verbatim>\<open>JSON.parse\<close> on the cleaned reply: a \<^verbatim>\<open>SyntaxError\<close>, the value \<^verbatim>\<open>null\<close>, a
  number, string or boolean, or an object, seen through the members the handler reads.
\<close>

datatype parsed = SyntaxError | JsonNull | JsonPrimitive | JsonObject analysis

datatype FileState = STATE_UNSPECIFIED | PROCESSING | ACTIVE | FAILED

record gfile =
  g_state :: FileState
  g_uri :: string

text \<open>
  The result of a resolved \<^verbatim>\<open>generateContent\<close> call, as the handlers use it:
  \<^verbatim>\<open>result.response.text()\<close> returns the text or throws (a blocked response).
\<close>

datatype generated = ResponseText string | TextThrows string

fun response_text :: "generated \<Rightarrow> string result" where
  "response_text (ResponseText t) = Inr t"
| "response_text (TextThrows m) = Inl m"

text \<open>The awaited calls on the database, the file system and the two services.\<close>

datatype step =
    SessionDeleteOne | ClipFind | CloudDestroy string | ClipDeleteMany
  | ClipFindOne | SessionFindOne | ClipUpdateOne
  | PushUserTurn | PushModelTurn
  | WriteFile | CloudUpload | FileUpload | ClipCreate | SessionSave | ClipSave | Unlink

text \<open>
  What the outside does during one request: \<open>e_fault s = Some m\<close> when the awaited
  call \<open>s\<close> rejects with message \<open>m\<close>; the clock readings; what the video store
  and the inference service answer; \<^verbatim>\<open>JSON.parse\<close> and \<^verbatim>\<open>JSON.stringify\<close>.
  \<open>e_generate\<close> gives, for a model identifier, the rejection of the call or its
  result. The prompt text goes to the inference service only, whose answer is any
  such function, so the prompt is not built here.
\<close>

record env =
  e_now :: nat
  e_createdAt :: nat
  e_mergedAt :: nat
  e_fault :: "step \<Rightarrow> string option"
  e_secure_url :: string
  e_public_id :: string
  e_getFile :: "nat \<Rightarrow> gfile result"
  e_generate :: "string \<Rightarrow> generated result"
  e_parse :: "string \<Rightarrow> parsed"
  e_stringify :: "analysis \<Rightarrow> string"

text \<open>
  The two collections in insertion order, the temporary upload directory, the videos
  held by the video store, and the logs of the calls made to the video store's
  \<^verbatim>\<open>destroy\<close>, to the inference models and to \<^verbatim>\<open>fs.unlink\<close>.
\<close>

record world =
  sessions :: "session list"
  clips :: "clip list"
  files :: "string set"
  cloud :: "string set"
  destroy_calls :: "string list"
  model_calls :: "string list"
  unlink_calls :: "string list"
  next_id :: nat

datatype body =
    Reply string
  | ReplyWithClip string clip
  | Success
  | ErrorMsg string

datatype response = Response (status: nat) (body: body)

subsection \<open>Collection operations\<close>

text \<open>
  \<^verbatim>\<open>findOne\<close> is \<^const>\<open>find\<close>, \<^verbatim>\<open>find\<close> is \<^const>\<open>filter\<close>; \<^verbatim>\<open>updateOne\<close> and
  \<^verbatim>\<open>deleteOne\<close> touch the first matching document only.
\<close>

fun updateOne :: "('a \<Rightarrow> bool) \<Rightarrow> ('a \<Rightarrow> 'a) \<Rightarrow> 'a list \<Rightarrow> 'a list" where
  "updateOne P f [] = []"
| "updateOne P f (x # xs) = (if P x then f x # xs else x # updateOne P f xs)"

fun deleteOne :: "('a \<Rightarrow> bool) \<Rightarrow> 'a list \<Rightarrow> 'a list" where
  "deleteOne P [] = []"
| "deleteOne P (x # xs) = (if P x then xs else x # deleteOne P xs)"

definition deleteMany :: "('a \<Rightarrow> bool) \<Rightarrow> 'a list \<Rightarrow> 'a list" where
  "deleteMany P xs = filter (\<lambda>x. \<not> P x) xs"

definition push_history :: "chat_turn \<Rightarrow> session \<Rightarrow> session" where
  "push_history t s = s\<lparr>s_history := s_history s @ [t]\<rparr>"

text \<open>
  \<^verbatim>\<open>fs.unlink\<close>: the world after the call and the rejection, if any. The call rejects
  when the outside makes it, and with \<^verbatim>\<open>ENOENT\<close> when the file is not there.
\<close>

definition unlink :: "env \<Rightarrow> string \<Rightarrow> world \<Rightarrow> world \<times> string option" where
  "unlink env path w =
     (let w1 = w\<lparr>unlink_calls := unlink_calls w @ [path]\<rparr> in
      case e_fault env Unlink of
        Some m \<Rightarrow> (w1, Some m)
      | None \<Rightarrow>
          if path \<in> files w1 then (w1\<lparr>files := files w1 - {path}\<rparr>, None)
          else (w1, Some ''ENOENT: no such file or directory''))"

text \<open>\<^verbatim>\<open>await fs.unlink(tempPath).catch(console.error)\<close>: a rejection is logged and dropped.\<close>

definition unlink_caught :: "env \<Rightarrow> string \<Rightarrow> world \<Rightarrow> world" where
  "unlink_caught env path w = fst (unlink env path w)"

text \<open>Running the invoker in the world logs the identifiers it called.\<close>

definition invoke_models :: "env \<Rightarrow> world \<Rightarrow> world \<times> generated result" where
  "invoke_models env w =
     (case generateWithFallback (e_generate env) of
        (tried, res) \<Rightarrow> (w\<lparr>model_calls := model_calls w @ tried\<rparr>, res))"

section \<open>Deleting a session\<close>

text \<open>
  The \<^verbatim>\<open>for\<close> loop of \<^verbatim>\<open>/api/delete-session\<close> over the clips found: a clip with a
  truthy \<^verbatim>\<open>publicId\<close> has its video destroyed; a rejected call leaves the loop with
  the error.
\<close>

fun destroy_videos :: "env \<Rightarrow> clip list \<Rightarrow> world \<Rightarrow> world \<times> string option" where
  "destroy_videos env [] w = (w, None)"
| "destroy_videos env (c # cs) w =
     (case c_publicId c of
        None \<Rightarrow> destroy_videos env cs w
      | Some p \<Rightarrow>
          if p = [] then destroy_videos env cs w
          else
            (let w1 = w\<lparr>destroy_calls := destroy_calls w @ [p]\<rparr> in
             case e_fault env (CloudDestroy p) of
               Some m \<Rightarrow> (w1, Some m)
             | None \<Rightarrow> destroy_videos env cs (w1\<lparr>cloud := cloud w1 - {p}\<rparr>)))"

definition delete_session :: "world \<Rightarrow> env \<Rightarrow> string \<Rightarrow> string \<Rightarrow> world \<times> response" where
  "delete_session w env uid sessionId =
     (let failed = Response 500 (ErrorMsg ''Delete failed'');
          mine_s = (\<lambda>s. s_sessionId s = sessionId \<and> s_owner s = uid);
          mine_c = (\<lambda>c. c_sessionId c = sessionId \<and> c_owner c = uid)
      in
      case e_fault env SessionDeleteOne of
        Some _ \<Rightarrow> (w, failed)
      | None \<Rightarrow>
          (let w1 = w\<lparr>sessions := deleteOne mine_s (sessions w)\<rparr> in
           case e_fault env ClipFind of
             Some _ \<Rightarrow> (w1, failed)
           | None \<Rightarrow>
               (case destroy_videos env (filter mine_c (clips w1)) w1 of
                  (w2, Some _) \<Rightarrow> (w2, failed)
                | (w2, None) \<Rightarrow>
                    (case e_fault env ClipDeleteMany of
                       Some _ \<Rightarrow> (w2, failed)
                     | None \<Rightarrow>
                         (w2\<lparr>clips := deleteMany mine_c (clips w2)\<rparr>, Response 200 Success)))))"

section \<open>Clip chat\<close>

text \<open>
  \<^verbatim>\<open>/api/clip-chat\<close>, behind \<^verbatim>\<open>requireAuth\<close>: \<open>uid\<close> is \<^verbatim>\<open>req.auth.userId\<close>. The session
  is read for the prompt only. Every exception ends in the handler's \<^verbatim>\<open>catch\<close>.
\<close>

definition clip_chat :: "world \<Rightarrow> env \<Rightarrow> string \<Rightarrow> nat \<Rightarrow> string \<Rightarrow> world \<times> response" where
  "clip_chat w env uid clipId message =
     (let failed = Response 500 (ErrorMsg ''Chat failed'');
          needed = Response 200 (Reply ''Analysis needed first.'')
      in
      case e_fault env ClipFindOne of
        Some _ \<Rightarrow> (w, failed)
      | None \<Rightarrow>
          (case find (\<lambda>c. c_id c = clipId \<and> c_owner c = uid) (clips w) of
             None \<Rightarrow> (w, needed)
           | Some clip \<Rightarrow>
               (case c_fullData clip of
                  None \<Rightarrow> (w, needed)
                | Some _ \<Rightarrow>
                    (case e_fault env SessionFindOne of
                       Some _ \<Rightarrow> (w, failed)
                     | None \<Rightarrow>
                         (case invoke_models env w of
                            (w1, Inl _) \<Rightarrow> (w1, failed)
                          | (w1, Inr result) \<Rightarrow>
                              (case response_text result of
                                 Inl _ \<Rightarrow> (w1, failed)
                               | Inr reply \<Rightarrow>
                                   (case e_fault env ClipUpdateOne of
                                      Some _ \<Rightarrow> (w1, failed)
                                    | None \<Rightarrow>
                                        (w1\<lparr>clips :=
                                             updateOne (\<lambda>c. c_id c = clipId)
                                               (\<lambda>c. c\<lparr>c_chatHistory := c_chatHistory c @
                                                  [\<lparr>t_role = ''user'', t_text = message\<rparr>,
                                                   \<lparr>t_role = ''model'', t_text = reply\<rparr>]\<rparr>)
                                               (clips w1)\<rparr>,
                                         Response 200 (Reply reply)))))))))"

section \<open>Chat and video analysis\<close>

subsection \<open>Polling the ingestion state\<close>

text \<open>
  \<^verbatim>\<open>file = await getFile(..); while (file.state === PROCESSING) { sleep 2000; file = await getFile(..) }\<close>.
  \<open>getFile k\<close> is the answer to the \<open>k\<close>-th call, \<open>waited\<close> the milliseconds slept so
  far. The loop has no counter and no deadline, so it may never return: that is
  the value \<open>None\<close>.
\<close>

partial_function (option) poll ::
  "(nat \<Rightarrow> gfile result) \<Rightarrow> nat \<Rightarrow> nat \<Rightarrow> (gfile \<times> nat \<times> nat) result option" where
  "poll getFile k waited =
     (case getFile k of
        Inl m \<Rightarrow> Some (Inl m)
      | Inr file \<Rightarrow>
          if g_state file = PROCESSING then poll getFile (Suc k) (waited + 2000)
          else Some (Inr (file, k, waited)))"

declare poll.simps [code]

text \<open>The loop from the first call, and the check for the failed state after it.\<close>

definition await_ingestion :: "env \<Rightarrow> gfile result option" where
  "await_ingestion env =
     (case poll (e_getFile env) 0 0 of
        None \<Rightarrow> None
      | Some (Inl m) \<Rightarrow> Some (Inl m)
      | Some (Inr (file, _, _)) \<Rightarrow>
          if g_state file = FAILED then Some (Inl ''Video processing failed at Google.'')
          else Some (Inr file))"

subsection \<open>Cleaning and parsing the reply\<close>

text \<open>\<^verbatim>\<open>s.replace(/pat/g, '')\<close> for a literal pattern.\<close>

function remove_all :: "string \<Rightarrow> string \<Rightarrow> string" where
  "remove_all pat [] = []"
| "remove_all pat (c # cs) =
     (if pat \<noteq> [] \<and> take (length pat) (c # cs) = pat
      then remove_all pat (drop (length pat) (c # cs))
      else c # remove_all pat cs)"
  by pat_completeness auto
termination
  by (relation "measure (\<lambda>(pat, s). length s)") auto

text \<open>
  \<^verbatim>\<open>String.prototype.trim\<close>. A string is held as its UTF-8 bytes, so the white space
  and line terminators of ECMAScript are these byte sequences: U+0009 to U+000D,
  U+0020, U+00A0, U+1680, U+2000 to U+200A, U+2028, U+2029, U+202F, U+205F, U+3000
  and U+FEFF.
\<close>

definition white_space :: "string list" where
  "white_space =
     [[CHR 0x09], [CHR 0x0A], [CHR 0x0B], [CHR 0x0C], [CHR 0x0D], [CHR 0x20],
      [CHR 0xC2, CHR 0xA0],
      [CHR 0xE1, CHR 0x9A, CHR 0x80],
      [CHR 0xE2, CHR 0x80, CHR 0x80], [CHR 0xE2, CHR 0x80, CHR 0x81],
      [CHR 0xE2, CHR 0x80, CHR 0x82], [CHR 0xE2, CHR 0x80, CHR 0x83],
      [CHR 0xE2, CHR 0x80, CHR 0x84], [CHR 0xE2, CHR 0x80, CHR 0x85],
      [CHR 0xE2, CHR 0x80, CHR 0x86], [CHR 0xE2, CHR 0x80, CHR 0x87],
      [CHR 0xE2, CHR 0x80, CHR 0x88], [CHR 0xE2, CHR 0x80, CHR 0x89],
      [CHR 0xE2, CHR 0x80, CHR 0x8A],
      [CHR 0xE2, CHR 0x80, CHR 0xA8], [CHR 0xE2, CHR 0x80, CHR 0xA9],
      [CHR 0xE2, CHR 0x80, CHR 0xAF],
      [CHR 0xE2, CHR 0x81, CHR 0x9F],
      [CHR 0xE3, CHR 0x80, CHR 0x80],
      [CHR 0xEF, CHR 0xBB, CHR 0xBF]]"

text \<open>Dropping every leading occurrence of one of the patterns.\<close>

function strip_start :: "string list \<Rightarrow> string \<Rightarrow> string" where
  "strip_start pats s =
     (case find (\<lambda>pat. pat \<noteq> [] \<and> take (length pat) s = pat) pats of
        None \<Rightarrow> s
      | Some pat \<Rightarrow> strip_start pats (drop (length pat) s))"
  by pat_completeness auto
termination
proof (relation "measure (\<lambda>(pats, s). length s)")
  show "wf (measure (\<lambda>(pats, s). length s))"
    by simp
next
  fix pats :: "string list" and s pat :: string
  assume "find (\<lambda>pat. pat \<noteq> [] \<and> take (length pat) s = pat) pats = Some pat"
  then have "pat \<noteq> []" and "take (length pat) s = pat"
    by (auto simp: find_Some_iff)
  then have "s \<noteq> []"
    by auto
  with \<open>pat \<noteq> []\<close>
  show "((pats, drop (length pat) s), (pats, s)) \<in> measure (\<lambda>(pats, s). length s)"
    by simp
qed

definition trim :: "string \<Rightarrow> string" where
  "trim s = rev (strip_start (map rev white_space) (rev (strip_start white_space s)))"

definition cleanText :: "string \<Rightarrow> string" where
  "cleanText t = trim (remove_all ''```'' (remove_all ''```json'' t))"

definition errorPayload :: analysis where
  "errorPayload =
     \<lparr>a_title = Some ''Analysis Error'',
      a_data = Some \<lparr>o_formation = Some ''Error'', d_formation = Some ''Error''\<rparr>,
      a_summary = Some ''The AI analysis could not be processed. Please try again.'',
      a_players = None,
      a_other = []\<rparr>"

text \<open>
  The inner \<^verbatim>\<open>try\<close>/\<^verbatim>\<open>catch\<close>. Reading \<^verbatim>\<open>json.data\<close> of \<^verbatim>\<open>null\<close> throws inside the
  \<^verbatim>\<open>try\<close>, so \<^verbatim>\<open>null\<close> ends in the fixed payload too. A primitive has no members
  and keeps none (the assignment is dropped): \<open>None\<close>.
\<close>

definition parse_reply :: "env \<Rightarrow> string \<Rightarrow> analysis option" where
  "parse_reply env reply =
     (case e_parse env (cleanText reply) of
        SyntaxError \<Rightarrow> Some errorPayload
      | JsonNull \<Rightarrow> Some errorPayload
      | JsonPrimitive \<Rightarrow> None
      | JsonObject json \<Rightarrow>
          Some (case a_data json of
                  None \<Rightarrow> json\<lparr>a_data :=
                            Some \<lparr>o_formation = Some ''Unknown'', d_formation = Some ''Unknown''\<rparr>\<rparr>
                | Some _ \<Rightarrow> json))"

subsection \<open>Roster merge\<close>

text \<open>\<^verbatim>\<open>Array.prototype.findIndex\<close>; \<open>None\<close> is \<open>-1\<close>.\<close>

fun findIndex :: "('a \<Rightarrow> bool) \<Rightarrow> 'a list \<Rightarrow> nat option" where
  "findIndex P [] = None"
| "findIndex P (x # xs) = (if P x then Some 0 else map_option Suc (findIndex P xs))"

text \<open>\<^verbatim>\<open>p.weakness ? [p.weakness] : []\<close>.\<close>

fun weakness_list :: "string option \<Rightarrow> string list" where
  "weakness_list None = []"
| "weakness_list (Some wk) = (if wk = [] then [] else [wk])"

text \<open>The body of the loop over \<^verbatim>\<open>json.players_detected\<close>.\<close>

definition merge_player ::
  "nat \<Rightarrow> player_profile list \<Rightarrow> detected_player \<Rightarrow> player_profile list" where
  "merge_player now roster p =
     (case findIndex (\<lambda>r. r_identifier r = p_identifier p) roster of
        Some idx \<Rightarrow>
          roster[idx := (roster ! idx)
            \<lparr>r_grade := p_grade p,
             r_notes := r_notes (roster ! idx) @ [p_observation p],
             r_weaknesses := r_weaknesses (roster ! idx) @ weakness_list (p_weakness p),
             r_last_updated := now\<rparr>]
      | None \<Rightarrow>
          roster @
            [\<lparr>r_identifier = p_identifier p, r_position = p_position p, r_grade = p_grade p,
              r_notes = [p_observation p], r_weaknesses = weakness_list (p_weakness p),
              r_last_updated = now\<rparr>])"

definition merge_roster ::
  "nat \<Rightarrow> player_profile list \<Rightarrow> detected_player list \<Rightarrow> player_profile list" where
  "merge_roster now roster ps = foldl (merge_player now) roster ps"

subsection \<open>The handler\<close>

record chat_request =
  b_message :: string
  b_sessionId :: string
  b_fileData :: "string option"
  b_sport :: string

fun digit_chars :: "nat \<Rightarrow> string" where
  "digit_chars n =
     (if n < 10 then [char_of (48 + n)]
      else digit_chars (n div 10) @ [char_of (48 + n mod 10)])"

text \<open>\<^verbatim>\<open>path.join(UPLOAD_DIR, `upload_${Date.now()}.mp4`)\<close>.\<close>

definition tempPath :: "env \<Rightarrow> string" where
  "tempPath env = ''temp_uploads/upload_'' @ digit_chars (e_now env) @ ''.mp4''"

text \<open>The outer \<^verbatim>\<open>catch\<close>; \<open>tp\<close> is \<^verbatim>\<open>tempPath\<close>, \<open>None\<close> while it is \<^verbatim>\<open>null\<close>.\<close>

definition chat_catch ::
  "env \<Rightarrow> string option \<Rightarrow> world \<Rightarrow> string \<Rightarrow> world \<times> response" where
  "chat_catch env tp w m =
     ((case tp of None \<Rightarrow> w | Some path \<Rightarrow> unlink_caught env path w),
      Response 500 (ErrorMsg (if m = [] then ''Analysis failed.'' else m)))"

text \<open>The text-only branch.\<close>

definition chat_text :: "world \<Rightarrow> env \<Rightarrow> chat_request \<Rightarrow> world \<times> response" where
  "chat_text w env req =
     (let this = (\<lambda>s. s_sessionId s = b_sessionId req) in
      case e_fault env PushUserTurn of
        Some m \<Rightarrow> chat_catch env None w m
      | None \<Rightarrow>
          (let w1 = w\<lparr>sessions := updateOne this
                      (push_history \<lparr>t_role = ''user'', t_text = b_message req\<rparr>) (sessions w)\<rparr>
           in
           case invoke_models env w1 of
             (w2, Inl m) \<Rightarrow> chat_catch env None w2 m
           | (w2, Inr result) \<Rightarrow>
               (case response_text result of
                  Inl m \<Rightarrow> chat_catch env None w2 m
                | Inr reply \<Rightarrow>
                    (case e_fault env PushModelTurn of
                       Some m \<Rightarrow> chat_catch env None w2 m
                     | None \<Rightarrow>
                         (w2\<lparr>sessions := updateOne this
                               (push_history \<lparr>t_role = ''model'', t_text = reply\<rparr>)
                               (sessions w2)\<rparr>,
                          Response 200 (Reply reply))))))"

text \<open>The document of \<^verbatim>\<open>Clip.create\<close>.\<close>

definition placeholder :: "world \<Rightarrow> env \<Rightarrow> string \<Rightarrow> chat_request \<Rightarrow> clip" where
  "placeholder w env uid req =
     \<lparr>c_id = next_id w, c_owner = uid, c_sessionId = b_sessionId req, c_sport = b_sport req,
      c_title = ''Analyzing...'', c_formation = ''...'',
      c_o_formation = None, c_d_formation = None, c_section = ''Inbox'',
      c_videoUrl = e_secure_url env, c_publicId = Some (e_public_id env),
      c_geminiFileUri = None, c_fullData = None, c_chatHistory = [], c_snapshots = [],
      c_createdAt = e_createdAt env\<rparr>"

text \<open>
  From \<^verbatim>\<open>fs.writeFile\<close> to \<^verbatim>\<open>Clip.create\<close>. The two uploads of \<^verbatim>\<open>Promise.all\<close> both
  start: the video store keeps the video when only the other upload rejects.
\<close>

definition upload_stage :: "world \<Rightarrow> env \<Rightarrow> string \<Rightarrow> chat_request \<Rightarrow> world \<times> clip result" where
  "upload_stage w env uid req =
     (case e_fault env WriteFile of
        Some m \<Rightarrow> (w, Inl m)
      | None \<Rightarrow>
          (let w1 = w\<lparr>files := insert (tempPath env) (files w)\<rparr> in
           case e_fault env CloudUpload of
             Some m \<Rightarrow> (w1, Inl m)
           | None \<Rightarrow>
               (let w2 = w1\<lparr>cloud := insert (e_public_id env) (cloud w1)\<rparr> in
                case e_fault env FileUpload of
                  Some m \<Rightarrow> (w2, Inl m)
                | None \<Rightarrow>
                    (case e_fault env ClipCreate of
                       Some m \<Rightarrow> (w2, Inl m)
                     | None \<Rightarrow>
                         (let savedClip = placeholder w2 env uid req in
                          (w2\<lparr>clips := clips w2 @ [savedClip], next_id := Suc (next_id w2)\<rparr>,
                           Inr savedClip))))))"

text \<open>
  \<^verbatim>\<open>Session.findOne\<close> with the owner, then the invoker and the text of its result; a
  missing session is a \<^verbatim>\<open>TypeError\<close>.
\<close>

definition analyse_stage ::
  "world \<Rightarrow> env \<Rightarrow> string \<Rightarrow> chat_request \<Rightarrow> world \<times> (session \<times> string) result" where
  "analyse_stage w env uid req =
     (case e_fault env SessionFindOne of
        Some m \<Rightarrow> (w, Inl m)
      | None \<Rightarrow>
          (case find (\<lambda>s. s_sessionId s = b_sessionId req \<and> s_owner s = uid) (sessions w) of
             None \<Rightarrow> (w, Inl ''Cannot read properties of null (reading 'roster')'')
           | Some session \<Rightarrow>
               (case invoke_models env w of
                  (w1, Inl m) \<Rightarrow> (w1, Inl m)
                | (w1, Inr result) \<Rightarrow>
                    (case response_text result of
                       Inl m \<Rightarrow> (w1, Inl m)
                     | Inr reply \<Rightarrow> (w1, Inr (session, reply))))))"

text \<open>The fields set on \<^verbatim>\<open>savedClip\<close> before \<^verbatim>\<open>savedClip.save()\<close>.\<close>

definition fill_clip :: "analysis \<Rightarrow> formation_data \<Rightarrow> gfile \<Rightarrow> clip \<Rightarrow> clip" where
  "fill_clip json fd file c =
     c\<lparr>c_title := (if truthy (a_title json) then js_str (a_title json) else ''Untitled Clip''),
       c_o_formation := o_formation fd,
       c_d_formation := d_formation fd,
       c_formation := js_str (o_formation fd) @ '' vs '' @ js_str (d_formation fd),
       c_fullData := Some json,
       c_geminiFileUri := Some (g_uri file)\<rparr>"

text \<open>The roster merge with \<^verbatim>\<open>session.save()\<close>, run when players were detected.\<close>

definition save_roster :: "world \<Rightarrow> env \<Rightarrow> session \<Rightarrow> analysis \<Rightarrow> world result" where
  "save_roster w env session json =
     (case a_players json of
        None \<Rightarrow> Inr w
      | Some ps \<Rightarrow>
          if ps = [] then Inr w
          else
            (case e_fault env SessionSave of
               Some m \<Rightarrow> Inl m
             | None \<Rightarrow>
                 Inr (w\<lparr>sessions := updateOne (\<lambda>s. s_id s = s_id session)
                          (\<lambda>s. s\<lparr>s_roster := merge_roster (e_mergedAt env) (s_roster session) ps\<rparr>)
                          (sessions w)\<rparr>)))"

text \<open>From the roster merge to the response.\<close>

definition persist_stage ::
  "world \<Rightarrow> env \<Rightarrow> chat_request \<Rightarrow> clip \<Rightarrow> session \<Rightarrow> gfile \<Rightarrow> analysis option
     \<Rightarrow> world \<times> response result" where
  "persist_stage w env req savedClip session file parsed =
     (case parsed of
        None \<Rightarrow> (w, Inl ''Cannot read properties of undefined (reading 'o_formation')'')
      | Some json \<Rightarrow>
          (case save_roster w env session json of
             Inl m \<Rightarrow> (w, Inl m)
           | Inr w1 \<Rightarrow>
               (case a_data json of
                  None \<Rightarrow> (w1, Inl ''Cannot read properties of undefined (reading 'o_formation')'')
                | Some fd \<Rightarrow>
                    (case e_fault env ClipSave of
                       Some m \<Rightarrow> (w1, Inl m)
                     | None \<Rightarrow>
                         (let this = (\<lambda>s. s_sessionId s = b_sessionId req);
                              w2 = w1\<lparr>clips := updateOne (\<lambda>c. c_id c = c_id savedClip)
                                          (fill_clip json fd file) (clips w1)\<rparr>
                          in
                          case e_fault env PushUserTurn of
                            Some m \<Rightarrow> (w2, Inl m)
                          | None \<Rightarrow>
                              (let w3 = w2\<lparr>sessions := updateOne this
                                          (push_history
                                             \<lparr>t_role = ''user'', t_text = ''Uploaded Video Analysis''\<rparr>)
                                          (sessions w2)\<rparr>
                               in
                               case e_fault env PushModelTurn of
                                 Some m \<Rightarrow> (w3, Inl m)
                               | None \<Rightarrow>
                                   (let w4 = w3\<lparr>sessions := updateOne this
                                               (push_history
                                                  \<lparr>t_role = ''model'', t_text = e_stringify env json\<rparr>)
                                               (sessions w3)\<rparr>
                                    in
                                    (unlink_caught env (tempPath env) w4,
                                     Inr (Response 200
                                            (ReplyWithClip (e_stringify env json)
                                               (fill_clip json fd file savedClip)))))))))))"

text \<open>The video branch; \<open>None\<close> when the polling loop never returns.\<close>

definition chat_video ::
  "world \<Rightarrow> env \<Rightarrow> string \<Rightarrow> chat_request \<Rightarrow> (world \<times> response) option" where
  "chat_video w env uid req =
     (let tp = Some (tempPath env) in
      case upload_stage w env uid req of
        (w1, Inl m) \<Rightarrow> Some (chat_catch env tp w1 m)
      | (w1, Inr savedClip) \<Rightarrow>
          (case await_ingestion env of
             None \<Rightarrow> None
           | Some (Inl m) \<Rightarrow> Some (chat_catch env tp w1 m)
           | Some (Inr file) \<Rightarrow>
               (case analyse_stage w1 env uid req of
                  (w2, Inl m) \<Rightarrow> Some (chat_catch env tp w2 m)
                | (w2, Inr (session, reply)) \<Rightarrow>
                    (case persist_stage w2 env req savedClip session file (parse_reply env reply) of
                       (w3, Inl m) \<Rightarrow> Some (chat_catch env tp w3 m)
                     | (w3, Inr resp) \<Rightarrow> Some (w3, resp)))))"

text \<open>\<^verbatim>\<open>/api/chat\<close>, behind \<^verbatim>\<open>requireAuth\<close>: \<^verbatim>\<open>!fileData\<close> selects the text-only branch.\<close>

definition chat :: "world \<Rightarrow> env \<Rightarrow> string \<Rightarrow> chat_request \<Rightarrow> (world \<times> response) option" where
  "chat w env uid req =
     (if \<not> truthy (b_fileData req) then Some (chat_text w env req)
      else chat_video w env uid req)"

section \<open>Predicates used in the statements\<close>

text \<open>The answer of a \<^verbatim>\<open>getFile\<close> call keeps the loop going.\<close>


definition still_processing :: "gfile result \<Rightarrow> bool" where
  "still_processing r = (case r of Inl _ \<Rightarrow> False | Inr file \<Rightarrow> g_state file = PROCESSING)"

text \<open>How the loop leaves at call \<open>n\<close>.\<close>

fun poll_outcome :: "gfile result \<Rightarrow> nat \<Rightarrow> nat \<Rightarrow> (gfile \<times> nat \<times> nat) result" where
  "poll_outcome (Inl m) n wd = Inl m"
| "poll_outcome (Inr f) n wd = Inr (f, n, wd)"

text \<open>What a returning run of the loop from call \<open>k\<close> has seen.\<close>

definition poll_post :: "(nat \<Rightarrow> gfile result) \<Rightarrow> nat \<Rightarrow> nat \<Rightarrow> (gfile \<times> nat \<times> nat) result \<Rightarrow> bool" where
  "poll_post gf k wd r \<longleftrightarrow>
     (\<exists>n\<ge>k. (\<forall>j. k \<le> j \<longrightarrow> j < n \<longrightarrow> still_processing (gf j)) \<and> \<not> still_processing (gf n) \<and>
           r = poll_outcome (gf n) n (wd + 2000 * (n - k)))"

text \<open>The video identifiers of the clips that have a truthy \<^verbatim>\<open>publicId\<close>.\<close>

definition stored_videos :: "clip list \<Rightarrow> string list" where
  "stored_videos cs = map (\<lambda>c. the (c_publicId c)) (filter (\<lambda>c. truthy (c_publicId c)) cs)"


text \<open>
  The request has got as far as a reply text: the upload was ingested as file \<open>f\<close>,
  the caller's session was found, and a model answered with text \<open>reply\<close>.
\<close>

definition reply_received ::
  "world \<Rightarrow> env \<Rightarrow> string \<Rightarrow> chat_request \<Rightarrow> gfile \<Rightarrow> session \<Rightarrow> string \<Rightarrow> bool" where
  "reply_received w env uid req f session reply \<longleftrightarrow>
     await_ingestion env = Some (Inr f) \<and>
     e_fault env SessionFindOne = None \<and>
     find (\<lambda>s. s_sessionId s = b_sessionId req \<and> s_owner s = uid) (sessions w) = Some session \<and>
     snd (generateWithFallback (e_generate env)) = Inr (ResponseText reply)"



text \<open>The world when the placeholder has been created.\<close>

definition uploaded :: "world \<Rightarrow> env \<Rightarrow> string \<Rightarrow> chat_request \<Rightarrow> world" where
  "uploaded w env uid req =
     w\<lparr>files := insert (tempPath env) (files w),
       cloud := insert (e_public_id env) (cloud w),
       clips := clips w @ [placeholder w env uid req],
       next_id := Suc (next_id w)\<rparr>"

text \<open>The world when the models have been called.\<close>

definition answered :: "world \<Rightarrow> env \<Rightarrow> string \<Rightarrow> chat_request \<Rightarrow> world" where
  "answered w env uid req =
     (uploaded w env uid req)
       \<lparr>model_calls := model_calls w @ fst (generateWithFallback (e_generate env))\<rparr>"

text \<open>What the players with one identifier, in their order, make of the first entry with it.\<close>

definition merged_entry ::
  "nat \<Rightarrow> player_profile option \<Rightarrow> detected_player list \<Rightarrow> player_profile option" where
  "merged_entry now old qs =
     (case qs of
        [] \<Rightarrow> old
      | q # _ \<Rightarrow>
          Some \<lparr>r_identifier = p_identifier q,
                r_position = (case old of Some r \<Rightarrow> r_position r | None \<Rightarrow> p_position q),
                r_grade = p_grade (last qs),
                r_notes = (case old of Some r \<Rightarrow> r_notes r | None \<Rightarrow> []) @
                          map p_observation qs,
                r_weaknesses = (case old of Some r \<Rightarrow> r_weaknesses r | None \<Rightarrow> []) @
                          concat (map (\<lambda>q. if truthy (p_weakness q) then [the (p_weakness q)] else []) qs),
                r_last_updated = now\<rparr>)"

section \<open>Example data\<close>

text \<open>
  A small database and one request's outside world, for the concrete runs below:
  the upload is ingested after two more polls, the first model is out of quota and
  the second answers with text that is not JSON.
\<close>

definition example_env :: env where
  "example_env =
     \<lparr>e_now = 1700, e_createdAt = 1701, e_mergedAt = 1709,
      e_fault = (\<lambda>_. None),
      e_secure_url = ''https://cdn.example/v1.mp4'', e_public_id = ''vantage_vision/v1'',
      e_getFile = (\<lambda>k. if k < 2 then Inr \<lparr>g_state = PROCESSING, g_uri = ''files/abc''\<rparr>
                        else Inr \<lparr>g_state = ACTIVE, g_uri = ''files/abc''\<rparr>),
      e_generate = (\<lambda>m. if m = ''gemini-2.5-pro'' then Inl ''quota exceeded''
                         else Inr (ResponseText ''Sorry, no JSON'')),
      e_parse = (\<lambda>_. SyntaxError),
      e_stringify = (\<lambda>a. js_str (a_title a))\<rparr>"

definition example_session :: session where
  "example_session =
     \<lparr>s_id = 0, s_sessionId = ''sess_1'', s_owner = ''user_alice'', s_title = ''Week 1'',
      s_type = ''team'', s_sport = ''football'', s_history = [], s_roster = []\<rparr>"

definition example_world :: world where
  "example_world =
     \<lparr>sessions = [example_session], clips = [], files = {}, cloud = {},
      destroy_calls = [], model_calls = [], unlink_calls = [], next_id = 1\<rparr>"

definition example_video :: chat_request where
  "example_video =
     \<lparr>b_message = [], b_sessionId = ''sess_1'', b_fileData = Some ''AAAA'',
      b_sport = ''football''\<rparr>"

definition never_ready :: "nat \<Rightarrow> gfile result" where
  "never_ready k = Inr \<lparr>g_state = PROCESSING, g_uri = ''files/abc''\<rparr>"

definition fails_after_one :: "nat \<Rightarrow> gfile result" where
  "fails_after_one k =
     (if k < 1 then Inr \<lparr>g_state = PROCESSING, g_uri = ''files/abc''\<rparr>
      else Inr \<lparr>g_state = FAILED, g_uri = ''files/abc''\<rparr>)"

definition example_profile :: player_profile where
  "example_profile =
     \<lparr>r_identifier = ''QB #12'', r_position = ''QB'', r_grade = ''B'',
      r_notes = [''Late read''], r_weaknesses = [], r_last_updated = 1000\<rparr>"

definition example_detected :: detected_player where
  "example_detected =
     \<lparr>p_identifier = ''QB #12'', p_position = ''QB'', p_grade = ''A'',
      p_observation = ''Quick release'', p_weakness = Some ''Footwork''\<rparr>"

definition example_clip :: "nat \<Rightarrow> string \<Rightarrow> string option \<Rightarrow> analysis option \<Rightarrow> clip" where
  "example_clip n uid pid full =
     \<lparr>c_id = n, c_owner = uid, c_sessionId = ''sess_1'', c_sport = ''football'',
      c_title = ''Mesh vs Cover 3'', c_formation = ''Trips vs Nickel'',
      c_o_formation = Some ''Trips'', c_d_formation = Some ''Nickel'', c_section = ''Inbox'',
      c_videoUrl = ''https://cdn.example/v.mp4'', c_publicId = pid,
      c_geminiFileUri = None, c_fullData = full, c_chatHistory = [], c_snapshots = [],
      c_createdAt = 1500\<rparr>"

text \<open>Two clips of one user's session, one without a stored video, and a clip of another user.\<close>

definition example_library :: world where
  "example_library =
     \<lparr>sessions = [example_session],
      clips = [example_clip 1 ''user_alice'' (Some ''vantage_vision/a1'') None,
               example_clip 2 ''user_bob'' (Some ''vantage_vision/b1'') None,
               example_clip 3 ''user_alice'' None (Some errorPayload)],
      files = {},
      cloud = {''vantage_vision/a1'', ''vantage_vision/b1''},
      destroy_calls = [], model_calls = [], unlink_calls = [], next_id = 4\<rparr>"

text \<open>The clip that the example request leaves behind when the reply is not JSON.\<close>

definition example_saved :: clip where
  "example_saved =
     \<lparr>c_id = 1, c_owner = ''user_alice'', c_sessionId = ''sess_1'', c_sport = ''football'',
      c_title = ''Analysis Error'', c_formation = ''Error vs Error'',
      c_o_formation = Some ''Error'', c_d_formation = Some ''Error'', c_section = ''Inbox'',
      c_videoUrl = ''https://cdn.example/v1.mp4'', c_publicId = Some ''vantage_vision/v1'',
      c_geminiFileUri = Some ''files/abc'', c_fullData = Some errorPayload,
      c_chatHistory = [], c_snapshots = [], c_createdAt = 1701\<rparr>"



definition example_text :: chat_request where
  "example_text =
     \<lparr>b_message = ''Hello'', b_sessionId = ''sess_1'', b_fileData = None,
      b_sport = ''football''\<rparr>"



text \<open>
  A reply that parses, with two observations of a player on the roster and one of
  a player who is not, and the world in which the caller's roster holds the first.
\<close>

definition example_analysis :: analysis where
  "example_analysis =
     \<lparr>a_title = Some ''Mesh'',
      a_data = Some \<lparr>o_formation = Some ''Trips'', d_formation = Some ''Nickel''\<rparr>,
      a_summary = Some ''Clean pocket'',
      a_players = Some
        [example_detected,
         \<lparr>p_identifier = ''WR #80'', p_position = ''WR'', p_grade = ''C'',
          p_observation = ''Rounded break'', p_weakness = None\<rparr>,
         \<lparr>p_identifier = ''QB #12'', p_position = ''QB'', p_grade = ''B'',
          p_observation = ''Held the ball'', p_weakness = Some []\<rparr>],
      a_other = []\<rparr>"

definition parsing_env :: env where
  "parsing_env = example_env\<lparr>e_parse := (\<lambda>_. JsonObject example_analysis)\<rparr>"

definition roster_world :: world where
  "roster_world =
     example_world\<lparr>sessions := [example_session\<lparr>s_roster := [example_profile]\<rparr>]\<rparr>"


definition roster_save_fails :: env where
  "roster_save_fails =
     parsing_env\<lparr>e_fault := (\<lambda>s. if s = SessionSave then Some ''version conflict'' else None)\<rparr>"

section \<open>Properties of the fallback invoker\<close>

lemma fallback_loop_success:
  assumes "n < length ms"
    and "\<forall>i<n. gen (ms ! i) = Inl (e i)"
    and "gen (ms ! n) = Inr r"
  shows "fallback_loop gen ms lastError tried = (tried @ take (Suc n) ms, Inr r)"
  using assms
proof (induction ms arbitrary: n e lastError tried)
  case Nil
  then show ?case by simp
next
  case (Cons m ms)
  show ?case
  proof (cases n)
    case 0
    with Cons.prems show ?thesis by simp
  next
    case (Suc k)
    have head: "gen m = Inl (e 0)"
      using Cons.prems(2) Suc by force
    have tl: "\<forall>i<k. gen (ms ! i) = Inl (e (Suc i))"
      using Cons.prems(2) Suc by force
    have "fallback_loop gen ms (Some (e 0)) (tried @ [m])
            = ((tried @ [m]) @ take (Suc k) ms, Inr r)"
      using Cons.IH [of k "\<lambda>i. e (Suc i)"] Cons.prems Suc tl by simp
    with head Suc show ?thesis by simp
  qed
qed

lemma fallback_loop_exhausted:
  assumes "\<forall>i<length ms. gen (ms ! i) = Inl (e i)"
  shows "fallback_loop gen ms lastError tried =
           (tried @ ms,
            Inl (''Analysis failed. Last error: '' @
                 js_str (if ms = [] then lastError else Some (e (length ms - 1)))))"
  using assms
proof (induction ms arbitrary: e lastError tried)
  case Nil
  then show ?case by simp
next
  case (Cons m ms)
  have head: "gen m = Inl (e 0)"
    using Cons.prems by force
  have tl: "\<forall>i<length ms. gen (ms ! i) = Inl (e (Suc i))"
    using Cons.prems by force
  show ?case
    using Cons.IH [OF tl, of "Some (e 0)" "tried @ [m]"] head
    by (cases ms) simp_all
qed

text \<open>
  C2. The invoker tries the configured identifiers in their fixed order, each at
  most once; when the first \<open>n\<close> attempts fail and the next succeeds it returns that
  attempt's result, having called exactly the first \<open>n + 1\<close> identifiers; when every
  attempt fails it throws \<^verbatim>\<open>Analysis failed. Last error: \<close> followed by the message
  of the last identifier's failure, having called every identifier once.
\<close>

theorem generateWithFallback_contract:
  "distinct MODEL_FALLBACK_LIST \<and>
   (n < length MODEL_FALLBACK_LIST \<and>
    (\<forall>i<n. gen (MODEL_FALLBACK_LIST ! i) = Inl (e i)) \<and>
    gen (MODEL_FALLBACK_LIST ! n) = Inr r
      \<longrightarrow> generateWithFallback gen = (take (Suc n) MODEL_FALLBACK_LIST, Inr r)) \<and>
   ((\<forall>i<length MODEL_FALLBACK_LIST. gen (MODEL_FALLBACK_LIST ! i) = Inl (e i))
      \<longrightarrow> generateWithFallback gen =
            (MODEL_FALLBACK_LIST,
             Inl (''Analysis failed. Last error: '' @ e (length MODEL_FALLBACK_LIST - 1))))"
proof (intro conjI impI)
  show "distinct MODEL_FALLBACK_LIST"
    by (simp add: MODEL_FALLBACK_LIST_def)
next
  assume "n < length MODEL_FALLBACK_LIST \<and>
    (\<forall>i<n. gen (MODEL_FALLBACK_LIST ! i) = Inl (e i)) \<and>
    gen (MODEL_FALLBACK_LIST ! n) = Inr r"
  then show "generateWithFallback gen = (take (Suc n) MODEL_FALLBACK_LIST, Inr r)"
    unfolding generateWithFallback_def
    using fallback_loop_success [of n MODEL_FALLBACK_LIST gen e r None "[]"] by simp
next
  assume a: "\<forall>i<length MODEL_FALLBACK_LIST. gen (MODEL_FALLBACK_LIST ! i) = Inl (e i)"
  have ne: "MODEL_FALLBACK_LIST \<noteq> []"
    by (simp add: MODEL_FALLBACK_LIST_def)
  show "generateWithFallback gen =
          (MODEL_FALLBACK_LIST,
           Inl (''Analysis failed. Last error: '' @ e (length MODEL_FALLBACK_LIST - 1)))"
    unfolding generateWithFallback_def
    using fallback_loop_exhausted [OF a, of None "[]"] ne by simp
qed

theorem generateWithFallback_contract_witness:
  "generateWithFallback (\<lambda>m. if m = ''gemini-2.0-flash'' then Inr ''ok'' else Inl ''quota'')
     = ([''gemini-2.5-pro'', ''gemini-2.5-flash'', ''gemini-2.0-flash''], Inr ''ok'') \<and>
   generateWithFallback (\<lambda>m. Inl (''down: '' @ m) :: string result)
     = ([''gemini-2.5-pro'', ''gemini-2.5-flash'', ''gemini-2.0-flash''],
        Inl ''Analysis failed. Last error: down: gemini-2.0-flash'')"
  using generateWithFallback_contract
          [of 2 "\<lambda>m. if m = ''gemini-2.0-flash'' then Inr ''ok'' else Inl ''quota''"
              "\<lambda>_. ''quota''" "''ok''"]
        generateWithFallback_contract
          [of 0 "\<lambda>m. Inl (''down: '' @ m) :: string result"
              "\<lambda>i. ''down: '' @ MODEL_FALLBACK_LIST ! i" "''x''"]
  by (simp add: MODEL_FALLBACK_LIST_def less_Suc_eq numeral_2_eq_2 numeral_3_eq_3)

section \<open>The polling loop\<close>

lemma poll_post_stop:
  "\<not> still_processing (gf k) \<Longrightarrow> poll_post gf k wd (poll_outcome (gf k) k wd)"
  unfolding poll_post_def by (intro exI [of _ k]) simp

lemma poll_post_step:
  assumes "still_processing (gf k)" and "poll_post gf (Suc k) (wd + 2000) r"
  shows "poll_post gf k wd r"
proof -
  from assms(2) obtain n where n: "Suc k \<le> n"
    "\<forall>j. Suc k \<le> j \<longrightarrow> j < n \<longrightarrow> still_processing (gf j)"
    "\<not> still_processing (gf n)"
    "r = poll_outcome (gf n) n (wd + 2000 + 2000 * (n - Suc k))"
    unfolding poll_post_def by blast
  have all: "\<forall>j. k \<le> j \<longrightarrow> j < n \<longrightarrow> still_processing (gf j)"
  proof (intro allI impI)
    fix j assume "k \<le> j" and "j < n"
    then show "still_processing (gf j)"
      using assms(1) n(2) by (cases "j = k") auto
  qed
  have w: "wd + 2000 + 2000 * (n - Suc k) = wd + 2000 * (n - k)"
    using n(1) by (cases "n - k") auto
  have "k \<le> n" using n(1) by simp
  then show ?thesis
    unfolding poll_post_def using all n(3) n(4) w by (intro exI [of _ n]) simp
qed

lemma poll_Some:
  assumes "poll gf k wd = Some r"
  shows "poll_post gf k wd r"
proof (rule poll.raw_induct [where P = poll_post, OF _ assms])
  fix poll' :: "(nat \<Rightarrow> gfile result) \<Rightarrow> nat \<Rightarrow> nat \<Rightarrow> (gfile \<times> nat \<times> nat) result option"
  fix gf k wd r
  assume IH: "\<And>g k wd r. poll' g k wd = Some r \<Longrightarrow> poll_post g k wd r"
    and body: "(case gf k of Inl m \<Rightarrow> Some (Inl m)
      | Inr file \<Rightarrow>
          if g_state file = PROCESSING
          then poll' gf (Suc k) (wd + 2000)
          else Some (Inr (file, k, wd))) = Some r"
  show "poll_post gf k wd r"
  proof (cases "gf k")
    case (Inl m)
    with body have "r = poll_outcome (gf k) k wd" by simp
    moreover have "\<not> still_processing (gf k)"
      using Inl by (simp add: still_processing_def)
    ultimately show ?thesis by (simp add: poll_post_stop)
  next
    case (Inr f)
    show ?thesis
    proof (cases "g_state f = PROCESSING")
      case False
      with Inr body have "r = poll_outcome (gf k) k wd" by simp
      moreover have "\<not> still_processing (gf k)"
        using Inr False by (simp add: still_processing_def)
      ultimately show ?thesis by (simp add: poll_post_stop)
    next
      case True
      with Inr body have "poll' gf (Suc k) (wd + 2000) = Some r" by simp
      then have "poll_post gf (Suc k) (wd + 2000) r" by (rule IH)
      moreover have "still_processing (gf k)"
        using Inr True by (simp add: still_processing_def)
      ultimately show ?thesis by (rule poll_post_step [rotated])
    qed
  qed
qed

lemma poll_step:
  "still_processing (gf k) \<Longrightarrow> poll gf k wd = poll gf (Suc k) (wd + 2000)"
  by (subst poll.simps) (auto simp: still_processing_def split: sum.splits)

lemma poll_stop:
  "\<not> still_processing (gf k) \<Longrightarrow>
   poll gf k wd = Some (poll_outcome (gf k) k wd)"
  by (subst poll.simps) (auto simp: still_processing_def split: sum.splits)

lemma poll_returns:
  assumes "\<forall>j. k \<le> j \<longrightarrow> j < n \<longrightarrow> still_processing (gf j)"
    and "k \<le> n" and "\<not> still_processing (gf n)"
  shows "poll gf k wd =
           Some (poll_outcome (gf n) n (wd + 2000 * (n - k)))"
  using assms
proof (induction "n - k" arbitrary: k wd)
  case 0
  then have "n - k = 0" and "k = n" by simp_all
  then show ?case using "0.prems"(3) by (simp add: poll_stop)
next
  case (Suc d)
  then have lt: "k < n" by simp
  with Suc.prems have pk: "still_processing (gf k)" by simp
  have "poll gf (Suc k) (wd + 2000) =
          Some (poll_outcome (gf n) n (wd + 2000 + 2000 * (n - Suc k)))"
    using Suc.hyps(1) [of "Suc k" "wd + 2000"] Suc.hyps(2) Suc.prems lt by simp
  moreover have "wd + 2000 + 2000 * (n - Suc k) = wd + 2000 * (n - k)"
    using lt by (cases "n - k") auto
  ultimately show ?case
    using pk by (simp add: poll_step)
qed


lemma poll_diverges:
  assumes "\<forall>j\<ge>k. still_processing (gf j)"
  shows "poll gf k wd = None"
proof (cases "poll gf k wd")
  case None
  then show ?thesis .
next
  case (Some r)
  then have "poll_post gf k wd r" by (rule poll_Some)
  then obtain n where "k \<le> n" and "\<not> still_processing (gf n)"
    unfolding poll_post_def by blast
  with assms show ?thesis by simp
qed

lemma poll_Some_Inr:
  assumes "poll gf k wd = Some (Inr (file, n, waited))"
  shows "k \<le> n \<and> gf n = Inr file \<and> g_state file \<noteq> PROCESSING \<and>
         waited = wd + 2000 * (n - k) \<and> (\<forall>j. k \<le> j \<longrightarrow> j < n \<longrightarrow> still_processing (gf j))"
proof -
  from poll_Some [OF assms] obtain m where m: "k \<le> m"
    "\<forall>j. k \<le> j \<longrightarrow> j < m \<longrightarrow> still_processing (gf j)"
    "\<not> still_processing (gf m)"
    "Inr (file, n, waited) = poll_outcome (gf m) m (wd + 2000 * (m - k))"
    unfolding poll_post_def by blast
  from m(4) obtain f where f: "gf m = Inr f"
    by (cases "gf m") simp_all
  with m(4) have eq: "file = f" "n = m" "waited = wd + 2000 * (m - k)"
    by simp_all
  with m(3) f have "g_state file \<noteq> PROCESSING"
    by (simp add: still_processing_def)
  with m(1) m(2) f eq show ?thesis by simp
qed

text \<open>
  C7. The polling loop has no attempt bound. A run that returns a file has seen the
  processing state at every earlier call and a different state at the last one, and
  has slept 2000 ms between each two calls; for every \<open>n\<close> there are answers
  on which it returns only after \<open>n\<close> sleeps. When the state it leaves with is the
  failed state, the handler throws at once. On answers that stay in the processing
  state forever the loop, and with it the request, never returns.
\<close>

theorem poll_loop_unbounded:
  "(poll gf 0 0 = Some (Inr (f, n, waited)) \<longrightarrow>
      gf n = Inr f \<and> g_state f \<noteq> PROCESSING \<and> waited = 2000 * n \<and>
      (\<forall>j<n. still_processing (gf j))) \<and>
   ((\<forall>j<n. still_processing (gf j)) \<and> gf n = Inr f \<and> g_state f \<noteq> PROCESSING \<longrightarrow>
      poll gf 0 0 = Some (Inr (f, n, 2000 * n))) \<and>
   ((\<forall>j<n. still_processing (gf j)) \<and> gf n = Inr f \<and> g_state f = FAILED \<and>
    e_getFile env = gf \<longrightarrow>
      await_ingestion env = Some (Inl ''Video processing failed at Google.'')) \<and>
   ((\<forall>j. still_processing (gf j)) \<longrightarrow> poll gf 0 0 = None) \<and>
   ((\<forall>j. still_processing (e_getFile env j)) \<and> upload_stage w env uid req = (w1, Inr savedClip) \<longrightarrow>
      chat_video w env uid req = None)"
proof -
  have c1: "poll gf 0 0 = Some (Inr (f, n, waited)) \<longrightarrow>
      gf n = Inr f \<and> g_state f \<noteq> PROCESSING \<and> waited = 2000 * n \<and>
      (\<forall>j<n. still_processing (gf j))"
  proof
    assume "poll gf 0 0 = Some (Inr (f, n, waited))"
    from poll_Some_Inr [OF this]
    show "gf n = Inr f \<and> g_state f \<noteq> PROCESSING \<and> waited = 2000 * n \<and>
      (\<forall>j<n. still_processing (gf j))"
      by simp
  qed
  have c2: "(\<forall>j<n. still_processing (gf j)) \<and> gf n = Inr f \<and> g_state f \<noteq> PROCESSING \<longrightarrow>
      poll gf 0 0 = Some (Inr (f, n, 2000 * n))"
  proof
  assume a: "(\<forall>j<n. still_processing (gf j)) \<and> gf n = Inr f \<and> g_state f \<noteq> PROCESSING"
  then have "\<not> still_processing (gf n)"
    by (simp add: still_processing_def)
  with a show "poll gf 0 0 = Some (Inr (f, n, 2000 * n))"
    using poll_returns [of 0 n gf 0] by simp
  qed
  have c3: "(\<forall>j<n. still_processing (gf j)) \<and> gf n = Inr f \<and> g_state f = FAILED \<and>
    e_getFile env = gf \<longrightarrow>
      await_ingestion env = Some (Inl ''Video processing failed at Google.'')"
  proof
  assume a: "(\<forall>j<n. still_processing (gf j)) \<and> gf n = Inr f \<and> g_state f = FAILED \<and>
    e_getFile env = gf"
  then have "\<not> still_processing (gf n)"
    by (simp add: still_processing_def)
  with a have "poll (e_getFile env) 0 0 = Some (Inr (f, n, 2000 * n))"
    using poll_returns [of 0 n gf 0] by simp
  with a show "await_ingestion env = Some (Inl ''Video processing failed at Google.'')"
    by (simp add: await_ingestion_def)
  qed
  have c4: "(\<forall>j. still_processing (gf j)) \<longrightarrow> poll gf 0 0 = None"
    by (simp add: poll_diverges)
  have c5: "(\<forall>j. still_processing (e_getFile env j)) \<and>
    upload_stage w env uid req = (w1, Inr savedClip) \<longrightarrow> chat_video w env uid req = None"
  proof
  assume a: "(\<forall>j. still_processing (e_getFile env j)) \<and>
    upload_stage w env uid req = (w1, Inr savedClip)"
  then have "poll (e_getFile env) 0 0 = None"
    by (simp add: poll_diverges)
  then have "await_ingestion env = None"
    by (simp add: await_ingestion_def)
  with a show "chat_video w env uid req = None"
    by (simp add: chat_video_def)
  qed
  show ?thesis
    by (rule conjI c1 c2 c3 c4 c5)+
qed

theorem poll_loop_unbounded_witness:
  "poll (e_getFile example_env) 0 0 =
     Some (Inr (\<lparr>g_state = ACTIVE, g_uri = ''files/abc''\<rparr>, 2, 4000)) \<and>
   await_ingestion (example_env\<lparr>e_getFile := fails_after_one\<rparr>)
     = Some (Inl ''Video processing failed at Google.'') \<and>
   poll never_ready 0 0 = None \<and>
   chat_video example_world (example_env\<lparr>e_getFile := never_ready\<rparr>)
     ''user_alice'' example_video = None"
proof -
  have a: "poll (e_getFile example_env) 0 0 =
     Some (Inr (\<lparr>g_state = ACTIVE, g_uri = ''files/abc''\<rparr>, 2, 4000))"
    using poll_loop_unbounded
          [where gf = "e_getFile example_env" and n = 2
             and f = "\<lparr>g_state = ACTIVE, g_uri = ''files/abc''\<rparr>" and waited = 4000
             and env = example_env and w = example_world and uid = "''user_alice''"
             and req = example_video and ?w1.0 = example_world
             and savedClip = "placeholder example_world example_env ''user_alice'' example_video"]
    by (simp add: example_env_def still_processing_def less_Suc_eq numeral_2_eq_2)
  have b: "await_ingestion (example_env\<lparr>e_getFile := fails_after_one\<rparr>)
     = Some (Inl ''Video processing failed at Google.'')"
    using poll_loop_unbounded
          [where gf = fails_after_one and n = 1
             and f = "\<lparr>g_state = FAILED, g_uri = ''files/abc''\<rparr>" and waited = 2000
             and env = "example_env\<lparr>e_getFile := fails_after_one\<rparr>"
             and w = example_world and uid = "''user_alice''"
             and req = example_video and ?w1.0 = example_world
             and savedClip = "placeholder example_world example_env ''user_alice'' example_video"]
    by (simp add: still_processing_def fails_after_one_def)
  have c: "poll never_ready 0 0 = None \<and>
    chat_video example_world (example_env\<lparr>e_getFile := never_ready\<rparr>)
      ''user_alice'' example_video = None"
    using poll_loop_unbounded
          [where gf = never_ready and n = 0
             and f = "\<lparr>g_state = FAILED, g_uri = ''files/abc''\<rparr>" and waited = 0
             and env = "example_env\<lparr>e_getFile := never_ready\<rparr>"
             and w = example_world and uid = "''user_alice''" and req = example_video
             and ?w1.0 = "fst (upload_stage example_world
                                (example_env\<lparr>e_getFile := never_ready\<rparr>)
                                ''user_alice'' example_video)"
             and savedClip = "projr (snd (upload_stage example_world
                                (example_env\<lparr>e_getFile := never_ready\<rparr>)
                                ''user_alice'' example_video))"]
    by (simp add: example_env_def still_processing_def upload_stage_def never_ready_def Let_def)
  from a b c show ?thesis by simp
qed

section \<open>The roster merge\<close>

lemma findIndex_None: "findIndex P xs = None \<longleftrightarrow> (\<forall>x\<in>set xs. \<not> P x)"
  by (induction xs) auto

lemma findIndex_Some:
  "findIndex P xs = Some i \<Longrightarrow> i < length xs \<and> P (xs ! i) \<and> (\<forall>j<i. \<not> P (xs ! j))"
proof (induction xs arbitrary: i)
  case Nil
  then show ?case by simp
next
  case (Cons x xs)
  show ?case
  proof (cases "P x")
    case True
    with Cons.prems show ?thesis by simp
  next
    case False
    with Cons.prems obtain k where k: "findIndex P xs = Some k" "i = Suc k"
      by auto
    from Cons.IH [OF k(1)] False k(2) show ?thesis
      by (auto simp: nth_Cons split: nat.splits)
  qed
qed

lemma merge_player_identifiers:
  "map r_identifier (merge_player now roster p) =
     (if p_identifier p \<in> r_identifier ` set roster then map r_identifier roster
      else map r_identifier roster @ [p_identifier p])"
proof (cases "findIndex (\<lambda>r. r_identifier r = p_identifier p) roster")
  case None
  then have "p_identifier p \<notin> r_identifier ` set roster"
    by (auto simp: findIndex_None)
  with None show ?thesis
    by (simp add: merge_player_def)
next
  case (Some i)
  from findIndex_Some [OF Some]
  have i: "i < length roster" "r_identifier (roster ! i) = p_identifier p"
    by simp_all
  then have "p_identifier p \<in> r_identifier ` set roster"
    by (metis image_eqI nth_mem)
  moreover have "map r_identifier (merge_player now roster p) = map r_identifier roster"
    using Some i by (simp add: merge_player_def map_update list_update_same_conv)
  ultimately show ?thesis by simp
qed

lemma merge_roster_distinct:
  "distinct (map r_identifier roster) \<Longrightarrow>
   distinct (map r_identifier (merge_roster now roster ps))"
  unfolding merge_roster_def
proof (induction ps arbitrary: roster)
  case Nil
  then show ?case by simp
next
  case (Cons p ps)
  have "distinct (map r_identifier (merge_player now roster p))"
    using Cons.prems by (simp add: merge_player_identifiers)
  from Cons.IH [OF this] show ?case by simp
qed

lemma findIndex_find:
  "findIndex P xs = Some i \<Longrightarrow> find P xs = Some (xs ! i)"
proof (induction xs arbitrary: i)
  case Nil
  then show ?case by simp
next
  case (Cons x xs)
  then show ?case
    by (cases "P x") auto
qed

lemma find_append_last:
  "find P (xs @ [y]) = (case find P xs of Some x \<Rightarrow> Some x | None \<Rightarrow> if P y then Some y else None)"
  by (induction xs) simp_all

lemma find_update_first:
  assumes "findIndex (\<lambda>r. r_identifier r = kp) R = Some i"
    and "r_identifier (g (R ! i)) = kp"
  shows "find (\<lambda>r. r_identifier r = k) (R[i := g (R ! i)]) =
           (if k = kp then Some (g (R ! i)) else find (\<lambda>r. r_identifier r = k) R)"
  using assms
proof (induction R arbitrary: i)
  case Nil
  then show ?case by simp
next
  case (Cons r R)
  show ?case
  proof (cases "r_identifier r = kp")
    case True
    with Cons.prems have "i = 0" by simp
    with True Cons.prems show ?thesis by auto
  next
    case False
    with Cons.prems obtain j where j: "findIndex (\<lambda>r. r_identifier r = kp) R = Some j" "i = Suc j"
      by auto
    from Cons.prems(2) j have "r_identifier (g (R ! j)) = kp" by simp
    from Cons.IH [OF j(1) this] False j(2) show ?thesis
      by auto
  qed
qed

text \<open>The first entry with identifier \<open>k\<close> after one player has been merged.\<close>

lemma find_merge_player:
  "find (\<lambda>r. r_identifier r = k) (merge_player now R p) =
     (if k = p_identifier p
      then Some (case find (\<lambda>r. r_identifier r = k) R of
                   Some r \<Rightarrow>
                     r\<lparr>r_grade := p_grade p, r_notes := r_notes r @ [p_observation p],
                       r_weaknesses := r_weaknesses r @ weakness_list (p_weakness p),
                       r_last_updated := now\<rparr>
                 | None \<Rightarrow>
                     \<lparr>r_identifier = p_identifier p, r_position = p_position p,
                      r_grade = p_grade p, r_notes = [p_observation p],
                      r_weaknesses = weakness_list (p_weakness p), r_last_updated = now\<rparr>)
      else find (\<lambda>r. r_identifier r = k) R)"
proof (cases "findIndex (\<lambda>r. r_identifier r = p_identifier p) R")
  case None
  then have nf: "find (\<lambda>r. r_identifier r = p_identifier p) R = None"
    by (simp add: findIndex_None find_None_iff)
  show ?thesis
    using None nf
    by (auto simp: merge_player_def find_append_last split: option.splits)
next
  case (Some i)
  note fi = findIndex_Some [OF Some]
  let ?g = "\<lambda>r. r\<lparr>r_grade := p_grade p, r_notes := r_notes r @ [p_observation p],
                       r_weaknesses := r_weaknesses r @ weakness_list (p_weakness p),
                       r_last_updated := now\<rparr>"
  have id: "r_identifier (?g (R ! i)) = p_identifier p"
    using fi by simp
  have m: "merge_player now R p = R[i := ?g (R ! i)]"
    using Some by (simp add: merge_player_def)
  have f: "find (\<lambda>r. r_identifier r = p_identifier p) R = Some (R ! i)"
    using Some by (rule findIndex_find)
  show ?thesis
    unfolding m
    using find_update_first [where g = ?g and k = k, OF Some id] f by simp
qed

lemma merge_player_length:
  "length (merge_player now roster p) =
     (if p_identifier p \<in> r_identifier ` set roster then length roster else Suc (length roster))"
proof -
  have "length (merge_player now roster p) = length (map r_identifier (merge_player now roster p))"
    by simp
  also have "\<dots> = (if p_identifier p \<in> r_identifier ` set roster then length roster
                   else Suc (length roster))"
    unfolding merge_player_identifiers by simp
  finally show ?thesis .
qed

lemma merge_roster_length:
  "length (merge_roster now roster ps) =
     length roster + card (p_identifier ` set ps - r_identifier ` set roster)"
proof (induction ps arbitrary: roster)
  case Nil
  then show ?case by (simp add: merge_roster_def)
next
  case (Cons p ps)
  let ?r = "merge_player now roster p"
  let ?I = "r_identifier ` set roster"
  let ?S = "p_identifier ` set ps"
  have ids: "r_identifier ` set ?r = insert (p_identifier p) ?I"
  proof -
    have "r_identifier ` set ?r = set (map r_identifier ?r)"
      by simp
    also have "\<dots> = insert (p_identifier p) ?I"
      unfolding merge_player_identifiers by auto
    finally show ?thesis .
  qed
  have step: "merge_roster now roster (p # ps) = merge_roster now ?r ps"
    by (simp add: merge_roster_def)
  have "length (merge_roster now ?r ps) = length ?r + card (?S - insert (p_identifier p) ?I)"
    using Cons.IH [of ?r] ids by simp
  also have "\<dots> = length roster + card (insert (p_identifier p) ?S - ?I)"
  proof (cases "p_identifier p \<in> ?I")
    case True
    then have "insert (p_identifier p) ?S - ?I = ?S - ?I"
      and "insert (p_identifier p) ?I = ?I"
      by auto
    with True show ?thesis
      by (simp add: merge_player_length)
  next
    case False
    have fin: "finite (?S - insert (p_identifier p) ?I)"
      by simp
    have "insert (p_identifier p) ?S - ?I = insert (p_identifier p) (?S - insert (p_identifier p) ?I)"
      using False by auto
    moreover have "p_identifier p \<notin> ?S - insert (p_identifier p) ?I"
      by simp
    ultimately have "card (insert (p_identifier p) ?S - ?I) =
                     Suc (card (?S - insert (p_identifier p) ?I))"
      using fin by simp
    with False show ?thesis
      by (simp add: merge_player_length)
  qed
  finally show ?case
    using step by simp
qed

lemma merge_roster_snoc:
  "merge_roster now roster (ps @ [p]) = merge_player now (merge_roster now roster ps) p"
  by (simp add: merge_roster_def)

lemma weakness_list_truthy:
  "weakness_list wk = (if truthy wk then [the wk] else [])"
  by (cases wk) simp_all

lemma merged_entry_snoc:
  assumes "\<forall>q\<in>set qs. p_identifier q = k" and "p_identifier p = k"
    and "\<forall>r. old = Some r \<longrightarrow> r_identifier r = k"
  shows "merged_entry now old (qs @ [p]) =
     Some (case merged_entry now old qs of
             Some r \<Rightarrow>
               r\<lparr>r_grade := p_grade p, r_notes := r_notes r @ [p_observation p],
                 r_weaknesses := r_weaknesses r @ weakness_list (p_weakness p),
                 r_last_updated := now\<rparr>
           | None \<Rightarrow>
               \<lparr>r_identifier = p_identifier p, r_position = p_position p,
                r_grade = p_grade p, r_notes = [p_observation p],
                r_weaknesses = weakness_list (p_weakness p), r_last_updated = now\<rparr>)"
proof (cases qs)
  case Nil
  show ?thesis
  proof (cases old)
    case None
    with Nil show ?thesis
      by (simp add: merged_entry_def weakness_list_truthy)
  next
    case (Some r)
    with assms have "r_identifier r = p_identifier p"
      by simp
    with Nil Some show ?thesis
      by (cases r) (simp add: merged_entry_def weakness_list_truthy)
  qed
next
  case (Cons q qs')
  then show ?thesis
    by (simp add: merged_entry_def weakness_list_truthy)
qed

lemma find_holds: "find P xs = Some x \<Longrightarrow> P x"
  by (induction xs) (auto split: if_splits)

lemma find_identifier: "\<forall>r. find (\<lambda>r. r_identifier r = k) roster = Some r \<longrightarrow> r_identifier r = k"
  using find_holds [of "\<lambda>r. r_identifier r = k" roster] by blast

lemma find_merge_roster_hit:
  assumes "k = p_identifier p"
  shows "find (\<lambda>r. r_identifier r = k) (merge_roster now roster (ps @ [p])) =
      Some (case find (\<lambda>r. r_identifier r = k) (merge_roster now roster ps) of
             Some r \<Rightarrow>
               r\<lparr>r_grade := p_grade p, r_notes := r_notes r @ [p_observation p],
                 r_weaknesses := r_weaknesses r @ weakness_list (p_weakness p),
                 r_last_updated := now\<rparr>
           | None \<Rightarrow>
               \<lparr>r_identifier = p_identifier p, r_position = p_position p,
                r_grade = p_grade p, r_notes = [p_observation p],
                r_weaknesses = weakness_list (p_weakness p), r_last_updated = now\<rparr>)"
  by (simp only: merge_roster_snoc find_merge_player assms if_True simp_thms)

lemma find_merge_roster_miss:
  assumes "k \<noteq> p_identifier p"
  shows "find (\<lambda>r. r_identifier r = k) (merge_roster now roster (ps @ [p])) =
                   find (\<lambda>r. r_identifier r = k) (merge_roster now roster ps)"
  by (simp only: merge_roster_snoc find_merge_player assms if_False simp_thms)

lemma find_merge_roster:
  "find (\<lambda>r. r_identifier r = k) (merge_roster now roster ps) =
     merged_entry now (find (\<lambda>r. r_identifier r = k) roster)
       (filter (\<lambda>p. p_identifier p = k) ps)"
proof (induction ps rule: rev_induct)
  case Nil
  then show ?case
    by (simp add: merge_roster_def merged_entry_def)
next
  case (snoc p ps)
  let ?old = "find (\<lambda>r. r_identifier r = k) roster"
  let ?qs = "filter (\<lambda>p. p_identifier p = k) ps"
  show ?case
  proof (cases "k = p_identifier p")
    case False
    then have "filter (\<lambda>p. p_identifier p = k) (ps @ [p]) = ?qs"
      by simp
    then show ?thesis
      by (simp only: find_merge_roster_miss [OF False] snoc.IH)
  next
    case True
    have f: "filter (\<lambda>p. p_identifier p = k) (ps @ [p]) = ?qs @ [p]"
      using True by simp
    have q: "\<forall>q\<in>set ?qs. p_identifier q = k"
      by simp
    have p: "p_identifier p = k"
      using True by simp
    show ?thesis
      by (simp only: find_merge_roster_hit [OF True] snoc.IH f
            merged_entry_snoc [OF q p find_identifier])
  qed
qed

section \<open>Deleting a session\<close>

lemma stored_videos_Cons:
  "stored_videos (c # cs) =
     (if truthy (c_publicId c) then the (c_publicId c) # stored_videos cs else stored_videos cs)"
  by (simp add: stored_videos_def)

lemma destroy_videos_done:
  "destroy_videos env cs w = (w', None) \<Longrightarrow>
     destroy_calls w' = destroy_calls w @ stored_videos cs \<and>
     cloud w' = cloud w - set (stored_videos cs) \<and>
     clips w' = clips w \<and> sessions w' = sessions w \<and> files w' = files w \<and>
     model_calls w' = model_calls w \<and> next_id w' = next_id w"
proof (induction cs arbitrary: w)
  case Nil
  then show ?case by (simp add: stored_videos_def)
next
  case (Cons c cs)
  show ?case
  proof (cases "truthy (c_publicId c)")
    case False
    then have "destroy_videos env (c # cs) w = destroy_videos env cs w"
      by (cases "c_publicId c") simp_all
    with Cons.prems have "destroy_videos env cs w = (w', None)" by simp
    from Cons.IH [OF this] False show ?thesis
      by (simp add: stored_videos_Cons)
  next
    case True
    then obtain p where p: "c_publicId c = Some p" "p \<noteq> []"
      by (cases "c_publicId c") simp_all
    show ?thesis
    proof (cases "e_fault env (CloudDestroy p)")
      case (Some m)
      with p Cons.prems show ?thesis by (simp add: Let_def)
    next
      case None
      let ?w1 = "w\<lparr>destroy_calls := destroy_calls w @ [p], cloud := cloud w - {p}\<rparr>"
      from None p Cons.prems have "destroy_videos env cs ?w1 = (w', None)"
        by (simp add: Let_def)
      from Cons.IH [OF this] p show ?thesis
        by (auto simp: stored_videos_Cons)
    qed
  qed
qed

lemma destroy_videos_no_fault:
  "(\<forall>p. e_fault env (CloudDestroy p) = None) \<Longrightarrow> snd (destroy_videos env cs w) = None"
proof (induction cs arbitrary: w)
  case Nil
  then show ?case by simp
next
  case (Cons c cs)
  then show ?case
    by (cases "c_publicId c") (simp_all add: Let_def)
qed

text \<open>
  C4. When the delete-session handler answers 200, the clips of that session and
  owner are exactly the clips removed from the collection, and a destroy call was
  made to the video store, in order, for each of them that had a truthy
  \<^verbatim>\<open>publicId\<close>, whose video is then gone from the store. Without a rejected call the
  handler does answer 200.
\<close>

theorem delete_session_cascade:
  "(delete_session w env uid sessionId = (w', Response 200 b) \<longrightarrow>
      clips w' = filter (\<lambda>c. \<not> (c_sessionId c = sessionId \<and> c_owner c = uid)) (clips w) \<and>
      (\<forall>c\<in>set (clips w'). \<not> (c_sessionId c = sessionId \<and> c_owner c = uid)) \<and>
      destroy_calls w' = destroy_calls w @
        stored_videos (filter (\<lambda>c. c_sessionId c = sessionId \<and> c_owner c = uid) (clips w)) \<and>
      (\<forall>c\<in>set (clips w). c_sessionId c = sessionId \<and> c_owner c = uid \<and> truthy (c_publicId c)
          \<longrightarrow> the (c_publicId c) \<in> set (destroy_calls w') \<and> the (c_publicId c) \<notin> cloud w')) \<and>
   ((\<forall>s. e_fault env s = None) \<longrightarrow>
      snd (delete_session w env uid sessionId) = Response 200 Success)"
proof -
  let ?mine = "\<lambda>c. c_sessionId c = sessionId \<and> c_owner c = uid"
  let ?w1 = "w\<lparr>sessions := deleteOne (\<lambda>s. s_sessionId s = sessionId \<and> s_owner s = uid) (sessions w)\<rparr>"
  have c1: "delete_session w env uid sessionId = (w', Response 200 b) \<longrightarrow>
      clips w' = filter (\<lambda>c. \<not> ?mine c) (clips w) \<and>
      (\<forall>c\<in>set (clips w'). \<not> ?mine c) \<and>
      destroy_calls w' = destroy_calls w @ stored_videos (filter ?mine (clips w)) \<and>
      (\<forall>c\<in>set (clips w). ?mine c \<and> truthy (c_publicId c)
          \<longrightarrow> the (c_publicId c) \<in> set (destroy_calls w') \<and> the (c_publicId c) \<notin> cloud w')"
  proof
    assume ok: "delete_session w env uid sessionId = (w', Response 200 b)"
    obtain w2 r where dv: "destroy_videos env (filter ?mine (clips ?w1)) ?w1 = (w2, r)"
      by (cases "destroy_videos env (filter ?mine (clips ?w1)) ?w1")
    from ok dv have r: "r = None" and w': "w' = w2\<lparr>clips := deleteMany ?mine (clips w2)\<rparr>"
      by (auto simp: delete_session_def Let_def split: option.splits)
    from dv r have dv': "destroy_videos env (filter ?mine (clips w)) ?w1 = (w2, None)"
      by simp
    note d = destroy_videos_done [OF dv']
    have cl: "clips w' = filter (\<lambda>c. \<not> ?mine c) (clips w)"
      using w' d by (simp add: deleteMany_def)
    have dc: "destroy_calls w' = destroy_calls w @ stored_videos (filter ?mine (clips w))"
      using w' d by simp
    have cd: "cloud w' = cloud w - set (stored_videos (filter ?mine (clips w)))"
      using w' d by simp
    have mem: "\<forall>c\<in>set (clips w). ?mine c \<and> truthy (c_publicId c)
          \<longrightarrow> the (c_publicId c) \<in> set (stored_videos (filter ?mine (clips w)))"
      by (auto simp: stored_videos_def)
    from cl dc cd mem show "clips w' = filter (\<lambda>c. \<not> ?mine c) (clips w) \<and>
      (\<forall>c\<in>set (clips w'). \<not> ?mine c) \<and>
      destroy_calls w' = destroy_calls w @ stored_videos (filter ?mine (clips w)) \<and>
      (\<forall>c\<in>set (clips w). ?mine c \<and> truthy (c_publicId c)
          \<longrightarrow> the (c_publicId c) \<in> set (destroy_calls w') \<and> the (c_publicId c) \<notin> cloud w')"
      by simp
  qed
  have c2: "(\<forall>s. e_fault env s = None) \<longrightarrow>
      snd (delete_session w env uid sessionId) = Response 200 Success"
  proof
    assume nf: "\<forall>s. e_fault env s = None"
    then have "snd (destroy_videos env (filter ?mine (clips ?w1)) ?w1) = None"
      by (simp add: destroy_videos_no_fault)
    then obtain w2 where "destroy_videos env (filter ?mine (clips ?w1)) ?w1 = (w2, None)"
      by (cases "destroy_videos env (filter ?mine (clips ?w1)) ?w1") simp
    with nf show "snd (delete_session w env uid sessionId) = Response 200 Success"
      by (simp add: delete_session_def Let_def)
  qed
  from c1 c2 show ?thesis
    by blast
qed

theorem delete_session_cascade_witness:
  "snd (delete_session example_library example_env ''user_alice'' ''sess_1'') =
     Response 200 Success \<and>
   clips (fst (delete_session example_library example_env ''user_alice'' ''sess_1'')) =
     [example_clip 2 ''user_bob'' (Some ''vantage_vision/b1'') None] \<and>
   destroy_calls (fst (delete_session example_library example_env ''user_alice'' ''sess_1'')) =
     [''vantage_vision/a1''] \<and>
   ''vantage_vision/a1'' \<notin>
     cloud (fst (delete_session example_library example_env ''user_alice'' ''sess_1''))"
proof -
  have nf: "\<forall>s. e_fault example_env s = None"
    by (simp add: example_env_def)
  have ok: "snd (delete_session example_library example_env ''user_alice'' ''sess_1'') =
     Response 200 Success"
    using delete_session_cascade
         [where w = example_library and env = example_env and uid = "''user_alice''"
            and sessionId = "''sess_1''" and b = Success and w' = example_library] nf
    by blast
  then have run: "delete_session example_library example_env ''user_alice'' ''sess_1'' =
     (fst (delete_session example_library example_env ''user_alice'' ''sess_1''),
      Response 200 Success)"
    by (simp add: prod_eq_iff)
  from delete_session_cascade
         [where w = example_library and env = example_env and uid = "''user_alice''"
            and sessionId = "''sess_1''" and b = Success
            and w' = "fst (delete_session example_library example_env ''user_alice'' ''sess_1'')"]
    run
  have "clips (fst (delete_session example_library example_env ''user_alice'' ''sess_1'')) =
      filter (\<lambda>c. \<not> (c_sessionId c = ''sess_1'' \<and> c_owner c = ''user_alice''))
        (clips example_library) \<and>
    destroy_calls (fst (delete_session example_library example_env ''user_alice'' ''sess_1'')) =
      destroy_calls example_library @
        stored_videos (filter (\<lambda>c. c_sessionId c = ''sess_1'' \<and> c_owner c = ''user_alice'')
          (clips example_library)) \<and>
    (\<forall>c\<in>set (clips example_library).
        c_sessionId c = ''sess_1'' \<and> c_owner c = ''user_alice'' \<and> truthy (c_publicId c) \<longrightarrow>
        the (c_publicId c) \<notin>
          cloud (fst (delete_session example_library example_env ''user_alice'' ''sess_1'')))"
    by blast
  with ok show ?thesis
    by (simp add: example_library_def example_clip_def stored_videos_def)
qed

section \<open>Clip chat\<close>

lemma clip_chat_cases:
  "clip_chat w env uid clipId message = (w, Response 500 (ErrorMsg ''Chat failed'')) \<or>
   clip_chat w env uid clipId message = (w, Response 200 (Reply ''Analysis needed first.'')) \<or>
   (\<exists>c. e_fault env ClipFindOne = None \<and> e_fault env SessionFindOne = None \<and>
        find (\<lambda>c. c_id c = clipId \<and> c_owner c = uid) (clips w) = Some c \<and>
        c_fullData c \<noteq> None \<and>
        (let tried = fst (generateWithFallback (e_generate env));
             w1 = w\<lparr>model_calls := model_calls w @ tried\<rparr>
         in case snd (generateWithFallback (e_generate env)) of
              Inl m \<Rightarrow>
                clip_chat w env uid clipId message = (w1, Response 500 (ErrorMsg ''Chat failed''))
            | Inr (TextThrows m) \<Rightarrow>
                clip_chat w env uid clipId message = (w1, Response 500 (ErrorMsg ''Chat failed''))
            | Inr (ResponseText reply) \<Rightarrow>
                (case e_fault env ClipUpdateOne of
                   Some m \<Rightarrow>
                     clip_chat w env uid clipId message =
                       (w1, Response 500 (ErrorMsg ''Chat failed''))
                 | None \<Rightarrow>
                     clip_chat w env uid clipId message =
                       (w1\<lparr>clips := updateOne (\<lambda>c. c_id c = clipId)
                             (\<lambda>c. c\<lparr>c_chatHistory := c_chatHistory c @
                                [\<lparr>t_role = ''user'', t_text = message\<rparr>,
                                 \<lparr>t_role = ''model'', t_text = reply\<rparr>]\<rparr>)
                             (clips w)\<rparr>,
                        Response 200 (Reply reply)))))"
  by (cases "generateWithFallback (e_generate env)")
     (auto simp: clip_chat_def invoke_models_def Let_def
           split: option.splits sum.splits generated.splits)

lemma example_invoker:
  "generateWithFallback (e_generate example_env) =
     ([''gemini-2.5-pro'', ''gemini-2.5-flash''], Inr (ResponseText ''Sorry, no JSON''))"
  "generateWithFallback (\<lambda>m. Inl ''overloaded'' :: generated result) =
     (MODEL_FALLBACK_LIST, Inl ''Analysis failed. Last error: overloaded'')"
  by (simp_all add: generateWithFallback_def MODEL_FALLBACK_LIST_def example_env_def)

text \<open>
  C8. When the clip looked up for the caller does not exist or has no analysis
  payload, the clip-chat handler answers 200 with the fixed reply
  \<^verbatim>\<open>Analysis needed first.\<close> and leaves the world, the log of model calls included, as
  it was. A model is called only when the caller has a clip with that identifier that
  carries a payload, and then the invoker does run.
\<close>

theorem clip_chat_short_circuit:
  "(e_fault env ClipFindOne = None \<and>
    (\<forall>c. find (\<lambda>c. c_id c = clipId \<and> c_owner c = uid) (clips w) = Some c
          \<longrightarrow> c_fullData c = None) \<longrightarrow>
      clip_chat w env uid clipId message =
        (w, Response 200 (Reply ''Analysis needed first.''))) \<and>
   (model_calls (fst (clip_chat w env uid clipId message)) \<noteq> model_calls w \<longrightarrow>
      (\<exists>c\<in>set (clips w). c_id c = clipId \<and> c_owner c = uid \<and> c_fullData c \<noteq> None)) \<and>
   (e_fault env ClipFindOne = None \<and> e_fault env SessionFindOne = None \<and>
    find (\<lambda>c. c_id c = clipId \<and> c_owner c = uid) (clips w) = Some c \<and>
    c_fullData c \<noteq> None \<longrightarrow>
      model_calls (fst (clip_chat w env uid clipId message)) =
        model_calls w @ fst (generateWithFallback (e_generate env)))"
proof -
  have c1: "e_fault env ClipFindOne = None \<and>
    (\<forall>c. find (\<lambda>c. c_id c = clipId \<and> c_owner c = uid) (clips w) = Some c
          \<longrightarrow> c_fullData c = None) \<longrightarrow>
      clip_chat w env uid clipId message =
        (w, Response 200 (Reply ''Analysis needed first.''))"
    by (auto simp: clip_chat_def Let_def split: option.splits)
  have c2: "model_calls (fst (clip_chat w env uid clipId message)) \<noteq> model_calls w \<longrightarrow>
      (\<exists>c\<in>set (clips w). c_id c = clipId \<and> c_owner c = uid \<and> c_fullData c \<noteq> None)"
  proof
    assume ch: "model_calls (fst (clip_chat w env uid clipId message)) \<noteq> model_calls w"
    with clip_chat_cases [of w env uid clipId message]
    obtain c where "find (\<lambda>c. c_id c = clipId \<and> c_owner c = uid) (clips w) = Some c"
      and "c_fullData c \<noteq> None"
      by auto
    then show "\<exists>c\<in>set (clips w). c_id c = clipId \<and> c_owner c = uid \<and> c_fullData c \<noteq> None"
      by (auto simp: find_Some_iff)
  qed
  have c3: "e_fault env ClipFindOne = None \<and> e_fault env SessionFindOne = None \<and>
    find (\<lambda>c. c_id c = clipId \<and> c_owner c = uid) (clips w) = Some c \<and>
    c_fullData c \<noteq> None \<longrightarrow>
      model_calls (fst (clip_chat w env uid clipId message)) =
        model_calls w @ fst (generateWithFallback (e_generate env))"
    by (cases "generateWithFallback (e_generate env)")
       (auto simp: clip_chat_def invoke_models_def Let_def
             split: option.splits sum.splits generated.splits)
  from c1 c2 c3 show ?thesis
    by blast
qed

theorem clip_chat_short_circuit_witness:
  "clip_chat example_library example_env ''user_alice'' 1 ''Why trips?'' =
     (example_library, Response 200 (Reply ''Analysis needed first.'')) \<and>
   clip_chat example_library example_env ''user_bob'' 3 ''Why trips?'' =
     (example_library, Response 200 (Reply ''Analysis needed first.'')) \<and>
   model_calls (fst (clip_chat example_library example_env ''user_alice'' 3 ''Why trips?'')) =
     [''gemini-2.5-pro'', ''gemini-2.5-flash'']"
proof -
  have a: "clip_chat example_library example_env ''user_alice'' 1 ''Why trips?'' =
     (example_library, Response 200 (Reply ''Analysis needed first.''))"
    using clip_chat_short_circuit
            [where w = example_library and env = example_env and uid = "''user_alice''"
               and clipId = 1 and message = "''Why trips?''"
               and c = "example_clip 1 ''user_alice'' (Some ''vantage_vision/a1'') None"]
    by (simp add: example_library_def example_env_def example_clip_def)
  have b: "clip_chat example_library example_env ''user_bob'' 3 ''Why trips?'' =
     (example_library, Response 200 (Reply ''Analysis needed first.''))"
    using clip_chat_short_circuit
            [where w = example_library and env = example_env and uid = "''user_bob''"
               and clipId = 3 and message = "''Why trips?''"
               and c = "example_clip 3 ''user_alice'' None (Some errorPayload)"]
    by (simp add: example_library_def example_env_def example_clip_def)
  have nf: "e_fault example_env ClipFindOne = None" "e_fault example_env SessionFindOne = None"
    by (simp_all add: example_env_def)
  have c: "model_calls (fst (clip_chat example_library example_env ''user_alice'' 3 ''Why trips?'')) =
     [''gemini-2.5-pro'', ''gemini-2.5-flash'']"
    using clip_chat_short_circuit
            [where w = example_library and env = example_env and uid = "''user_alice''"
               and clipId = 3 and message = "''Why trips?''"
               and c = "example_clip 3 ''user_alice'' None (Some errorPayload)"]
          nf
    by (simp add: example_library_def example_clip_def example_invoker)
  from a b c show ?thesis by simp
qed

text \<open>
  C10. When the invoker throws, or returns a result whose text cannot be read, the
  clip-chat handler leaves every clip and session as it was and answers 500
  \<^verbatim>\<open>Chat failed\<close>. The clips change only when the invoker has returned a reply, and
  then by one update that appends the question and the reply together to the chat
  log.
\<close>

theorem clip_chat_append_after_success:
  "((snd (generateWithFallback (e_generate env)) = Inl m \<or>
    snd (generateWithFallback (e_generate env)) = Inr (TextThrows m)) \<longrightarrow>
      clips (fst (clip_chat w env uid clipId message)) = clips w \<and>
      sessions (fst (clip_chat w env uid clipId message)) = sessions w) \<and>
   ((snd (generateWithFallback (e_generate env)) = Inl m \<or>
    snd (generateWithFallback (e_generate env)) = Inr (TextThrows m)) \<and>
    e_fault env ClipFindOne = None \<and> e_fault env SessionFindOne = None \<and>
    find (\<lambda>c. c_id c = clipId \<and> c_owner c = uid) (clips w) = Some c \<and>
    c_fullData c \<noteq> None \<longrightarrow>
      snd (clip_chat w env uid clipId message) = Response 500 (ErrorMsg ''Chat failed'')) \<and>
   (clips (fst (clip_chat w env uid clipId message)) \<noteq> clips w \<longrightarrow>
      (\<exists>reply. snd (generateWithFallback (e_generate env)) = Inr (ResponseText reply) \<and>
         snd (clip_chat w env uid clipId message) = Response 200 (Reply reply) \<and>
         clips (fst (clip_chat w env uid clipId message)) =
           updateOne (\<lambda>c. c_id c = clipId)
             (\<lambda>c. c\<lparr>c_chatHistory := c_chatHistory c @
                [\<lparr>t_role = ''user'', t_text = message\<rparr>,
                 \<lparr>t_role = ''model'', t_text = reply\<rparr>]\<rparr>)
             (clips w))) \<and>
   (snd (generateWithFallback (e_generate env)) = Inr (ResponseText reply) \<and>
    e_fault env ClipFindOne = None \<and> e_fault env SessionFindOne = None \<and>
    e_fault env ClipUpdateOne = None \<and>
    find (\<lambda>c. c_id c = clipId \<and> c_owner c = uid) (clips w) = Some c \<and>
    c_fullData c \<noteq> None \<longrightarrow>
      snd (clip_chat w env uid clipId message) = Response 200 (Reply reply) \<and>
      clips (fst (clip_chat w env uid clipId message)) =
        updateOne (\<lambda>c. c_id c = clipId)
          (\<lambda>c. c\<lparr>c_chatHistory := c_chatHistory c @
             [\<lparr>t_role = ''user'', t_text = message\<rparr>,
              \<lparr>t_role = ''model'', t_text = reply\<rparr>]\<rparr>)
          (clips w))"
proof -
  note cc = clip_chat_cases [of w env uid clipId message]
  have c1: "(snd (generateWithFallback (e_generate env)) = Inl m \<or>
    snd (generateWithFallback (e_generate env)) = Inr (TextThrows m)) \<longrightarrow>
      clips (fst (clip_chat w env uid clipId message)) = clips w \<and>
      sessions (fst (clip_chat w env uid clipId message)) = sessions w"
    using cc by (auto simp: Let_def split: generated.splits)
  have c2: "(snd (generateWithFallback (e_generate env)) = Inl m \<or>
    snd (generateWithFallback (e_generate env)) = Inr (TextThrows m)) \<and>
    e_fault env ClipFindOne = None \<and> e_fault env SessionFindOne = None \<and>
    find (\<lambda>c. c_id c = clipId \<and> c_owner c = uid) (clips w) = Some c \<and>
    c_fullData c \<noteq> None \<longrightarrow>
      snd (clip_chat w env uid clipId message) = Response 500 (ErrorMsg ''Chat failed'')"
    by (cases "generateWithFallback (e_generate env)")
       (auto simp: clip_chat_def invoke_models_def Let_def
             split: option.splits sum.splits generated.splits)
  have c3: "clips (fst (clip_chat w env uid clipId message)) \<noteq> clips w \<longrightarrow>
      (\<exists>reply. snd (generateWithFallback (e_generate env)) = Inr (ResponseText reply) \<and>
         snd (clip_chat w env uid clipId message) = Response 200 (Reply reply) \<and>
         clips (fst (clip_chat w env uid clipId message)) =
           updateOne (\<lambda>c. c_id c = clipId)
             (\<lambda>c. c\<lparr>c_chatHistory := c_chatHistory c @
                [\<lparr>t_role = ''user'', t_text = message\<rparr>,
                 \<lparr>t_role = ''model'', t_text = reply\<rparr>]\<rparr>)
             (clips w))"
    using cc by (auto simp: Let_def split: sum.splits option.splits generated.splits)
  have c4: "snd (generateWithFallback (e_generate env)) = Inr (ResponseText reply) \<and>
    e_fault env ClipFindOne = None \<and> e_fault env SessionFindOne = None \<and>
    e_fault env ClipUpdateOne = None \<and>
    find (\<lambda>c. c_id c = clipId \<and> c_owner c = uid) (clips w) = Some c \<and>
    c_fullData c \<noteq> None \<longrightarrow>
      snd (clip_chat w env uid clipId message) = Response 200 (Reply reply) \<and>
      clips (fst (clip_chat w env uid clipId message)) =
        updateOne (\<lambda>c. c_id c = clipId)
          (\<lambda>c. c\<lparr>c_chatHistory := c_chatHistory c @
             [\<lparr>t_role = ''user'', t_text = message\<rparr>,
              \<lparr>t_role = ''model'', t_text = reply\<rparr>]\<rparr>)
          (clips w)"
    by (cases "generateWithFallback (e_generate env)")
       (auto simp: clip_chat_def invoke_models_def Let_def
             split: option.splits sum.splits generated.splits)
  from c1 c2 c3 c4 show ?thesis
    by blast
qed

theorem clip_chat_append_after_success_witness:
  "clips (fst (clip_chat example_library (example_env\<lparr>e_generate := (\<lambda>m. Inl ''overloaded'')\<rparr>)
                 ''user_alice'' 3 ''Why trips?'')) = clips example_library \<and>
   snd (clip_chat example_library (example_env\<lparr>e_generate := (\<lambda>m. Inl ''overloaded'')\<rparr>)
          ''user_alice'' 3 ''Why trips?'') = Response 500 (ErrorMsg ''Chat failed'') \<and>
   snd (clip_chat example_library example_env ''user_alice'' 3 ''Why trips?'') =
     Response 200 (Reply ''Sorry, no JSON'') \<and>
   clips (fst (clip_chat example_library example_env ''user_alice'' 3 ''Why trips?'')) =
     [example_clip 1 ''user_alice'' (Some ''vantage_vision/a1'') None,
      example_clip 2 ''user_bob'' (Some ''vantage_vision/b1'') None,
      (example_clip 3 ''user_alice'' None (Some errorPayload))
        \<lparr>c_chatHistory := [\<lparr>t_role = ''user'', t_text = ''Why trips?''\<rparr>,
                           \<lparr>t_role = ''model'', t_text = ''Sorry, no JSON''\<rparr>]\<rparr>]"
proof -
  let ?down = "example_env\<lparr>e_generate := (\<lambda>m. Inl ''overloaded'')\<rparr>"
  let ?c3 = "example_clip 3 ''user_alice'' None (Some errorPayload)"
  have nf: "e_fault example_env ClipFindOne = None" "e_fault example_env SessionFindOne = None"
    "e_fault example_env ClipUpdateOne = None"
    "e_fault ?down ClipFindOne = None" "e_fault ?down SessionFindOne = None"
    by (simp_all add: example_env_def)
  have found: "find (\<lambda>c. c_id c = 3 \<and> c_owner c = ''user_alice'') (clips example_library) = Some ?c3"
    by (simp add: example_library_def example_clip_def)
  have full: "c_fullData ?c3 \<noteq> None"
    by (simp add: example_clip_def)
  have down: "snd (generateWithFallback (e_generate ?down)) =
                Inl ''Analysis failed. Last error: overloaded''"
    by (simp add: example_invoker)
  have up: "snd (generateWithFallback (e_generate example_env)) =
              Inr (ResponseText ''Sorry, no JSON'')"
    by (simp add: example_invoker)
  have a: "clips (fst (clip_chat example_library ?down ''user_alice'' 3 ''Why trips?''))
             = clips example_library \<and>
           snd (clip_chat example_library ?down ''user_alice'' 3 ''Why trips?'')
             = Response 500 (ErrorMsg ''Chat failed'')"
    using clip_chat_append_after_success
            [where w = example_library and env = ?down
               and uid = "''user_alice''" and clipId = 3 and message = "''Why trips?''"
               and c = ?c3 and m = "''Analysis failed. Last error: overloaded''"
               and reply = "''none''"]
          nf found full down
    by blast
  have b: "snd (clip_chat example_library example_env ''user_alice'' 3 ''Why trips?'') =
             Response 200 (Reply ''Sorry, no JSON'') \<and>
           clips (fst (clip_chat example_library example_env ''user_alice'' 3 ''Why trips?'')) =
             updateOne (\<lambda>c. c_id c = 3)
               (\<lambda>c. c\<lparr>c_chatHistory := c_chatHistory c @
                  [\<lparr>t_role = ''user'', t_text = ''Why trips?''\<rparr>,
                   \<lparr>t_role = ''model'', t_text = ''Sorry, no JSON''\<rparr>]\<rparr>)
               (clips example_library)"
    using clip_chat_append_after_success
            [where w = example_library and env = example_env
               and uid = "''user_alice''" and clipId = 3 and message = "''Why trips?''"
               and c = ?c3 and m = "''none''" and reply = "''Sorry, no JSON''"]
          nf found full up
    by blast
  have upd: "updateOne (\<lambda>c. c_id c = 3)
               (\<lambda>c. c\<lparr>c_chatHistory := c_chatHistory c @
                  [\<lparr>t_role = ''user'', t_text = ''Why trips?''\<rparr>,
                   \<lparr>t_role = ''model'', t_text = ''Sorry, no JSON''\<rparr>]\<rparr>)
               (clips example_library) =
     [example_clip 1 ''user_alice'' (Some ''vantage_vision/a1'') None,
      example_clip 2 ''user_bob'' (Some ''vantage_vision/b1'') None,
      ?c3\<lparr>c_chatHistory := [\<lparr>t_role = ''user'', t_text = ''Why trips?''\<rparr>,
                           \<lparr>t_role = ''model'', t_text = ''Sorry, no JSON''\<rparr>]\<rparr>]"
    by (simp add: example_library_def example_clip_def)
  from a b upd show ?thesis by simp
qed

section \<open>The video branch, stage by stage\<close>

lemma unlink_caught_frame [simp]:
  "unlink_calls (unlink_caught env p w) = unlink_calls w @ [p]"
  "clips (unlink_caught env p w) = clips w"
  "sessions (unlink_caught env p w) = sessions w"
  "cloud (unlink_caught env p w) = cloud w"
  "destroy_calls (unlink_caught env p w) = destroy_calls w"
  "model_calls (unlink_caught env p w) = model_calls w"
  "next_id (unlink_caught env p w) = next_id w"
  by (simp_all add: unlink_caught_def unlink_def Let_def split: option.splits)



lemma placeholder_frame [simp]:
  "placeholder (w\<lparr>files := fs\<rparr>) env uid req = placeholder w env uid req"
  "placeholder (w\<lparr>cloud := cl\<rparr>) env uid req = placeholder w env uid req"
  by (simp_all add: placeholder_def)

lemma upload_stage_ok:
  "e_fault env WriteFile = None \<Longrightarrow> e_fault env CloudUpload = None \<Longrightarrow>
   e_fault env FileUpload = None \<Longrightarrow> e_fault env ClipCreate = None \<Longrightarrow>
   upload_stage w env uid req =
     (w\<lparr>files := insert (tempPath env) (files w),
        cloud := insert (e_public_id env) (cloud w),
        clips := clips w @ [placeholder w env uid req],
        next_id := Suc (next_id w)\<rparr>,
      Inr (placeholder w env uid req))"
  by (simp add: upload_stage_def Let_def)


lemma save_roster_frame:
  "save_roster w env session json = Inr w' \<Longrightarrow>
   files w' = files w \<and> clips w' = clips w \<and> cloud w' = cloud w \<and>
   destroy_calls w' = destroy_calls w \<and> next_id w' = next_id w"
  by (auto simp: save_roster_def split: option.splits if_splits)












lemma updateOne_append_fresh:
  "\<forall>x\<in>set xs. \<not> P x \<Longrightarrow> P y \<Longrightarrow> updateOne P f (xs @ [y]) = xs @ [f y]"
  by (induction xs) simp_all

lemma placeholder_id [simp]: "c_id (placeholder w env uid req) = next_id w"
  by (simp add: placeholder_def)

lemma parse_reply_malformed:
  "e_parse env (cleanText reply) = SyntaxError \<Longrightarrow> parse_reply env reply = Some errorPayload"
  by (simp add: parse_reply_def)

lemma analyse_stage_ok:
  assumes "e_fault env SessionFindOne = None"
    and "find (\<lambda>s. s_sessionId s = b_sessionId req \<and> s_owner s = uid) (sessions w) = Some session"
    and "snd (generateWithFallback (e_generate env)) = Inr (ResponseText reply)"
  shows "analyse_stage w env uid req =
           (w\<lparr>model_calls := model_calls w @ fst (generateWithFallback (e_generate env))\<rparr>,
            Inr (session, reply))"
  using assms
  by (cases "generateWithFallback (e_generate env)")
     (simp add: analyse_stage_def invoke_models_def)

lemma persist_stage_error_payload:
  assumes "e_fault env ClipSave = None"
    and "e_fault env PushUserTurn = None"
    and "e_fault env PushModelTurn = None"
  shows "persist_stage w env req savedClip session f (Some errorPayload) =
     (unlink_caught env (tempPath env)
        (w\<lparr>clips := updateOne (\<lambda>c. c_id c = c_id savedClip)
                      (fill_clip errorPayload
                         \<lparr>o_formation = Some ''Error'', d_formation = Some ''Error''\<rparr> f)
                      (clips w),
           sessions := updateOne (\<lambda>s. s_sessionId s = b_sessionId req)
                      (push_history \<lparr>t_role = ''model'', t_text = e_stringify env errorPayload\<rparr>)
                      (updateOne (\<lambda>s. s_sessionId s = b_sessionId req)
                         (push_history \<lparr>t_role = ''user'', t_text = ''Uploaded Video Analysis''\<rparr>)
                         (sessions w))\<rparr>),
      Inr (Response 200
             (ReplyWithClip (e_stringify env errorPayload)
                (fill_clip errorPayload
                   \<lparr>o_formation = Some ''Error'', d_formation = Some ''Error''\<rparr> f savedClip))))"
  using assms
  by (simp add: persist_stage_def save_roster_def errorPayload_def Let_def)

lemma fill_clip_error_payload:
  "fill_clip errorPayload \<lparr>o_formation = Some ''Error'', d_formation = Some ''Error''\<rparr> f c =
     c\<lparr>c_title := ''Analysis Error'', c_o_formation := Some ''Error'',
       c_d_formation := Some ''Error'', c_formation := ''Error vs Error'',
       c_fullData := Some errorPayload, c_geminiFileUri := Some (g_uri f)\<rparr>"
  by (simp add: fill_clip_def errorPayload_def)

lemma malformed_reply_effect:
  assumes "truthy (b_fileData req)"
    and "e_fault env WriteFile = None" and "e_fault env CloudUpload = None"
    and "e_fault env FileUpload = None" and "e_fault env ClipCreate = None"
    and "await_ingestion env = Some (Inr f)"
    and "e_fault env SessionFindOne = None"
    and "find (\<lambda>s. s_sessionId s = b_sessionId req \<and> s_owner s = uid) (sessions w) = Some session"
    and "snd (generateWithFallback (e_generate env)) = Inr (ResponseText reply)"
    and "e_parse env (cleanText reply) = SyntaxError"
    and "e_fault env ClipSave = None"
    and "e_fault env PushUserTurn = None" and "e_fault env PushModelTurn = None"
  shows "\<exists>w'. chat w env uid req =
             Some (w', Response 200
                         (ReplyWithClip (e_stringify env errorPayload)
                            (fill_clip errorPayload
                               \<lparr>o_formation = Some ''Error'', d_formation = Some ''Error''\<rparr> f
                               (placeholder w env uid req)))) \<and>
           clips w' =
             updateOne (\<lambda>c. c_id c = next_id w)
               (fill_clip errorPayload
                  \<lparr>o_formation = Some ''Error'', d_formation = Some ''Error''\<rparr> f)
               (clips w @ [placeholder w env uid req])"
proof -
  let ?ph = "placeholder w env uid req"
  let ?w1 = "w\<lparr>files := insert (tempPath env) (files w),
        cloud := insert (e_public_id env) (cloud w),
        clips := clips w @ [?ph],
        next_id := Suc (next_id w)\<rparr>"
  let ?w2 = "?w1\<lparr>model_calls := model_calls ?w1 @ fst (generateWithFallback (e_generate env))\<rparr>"
  let ?saved = "fill_clip errorPayload
                  \<lparr>o_formation = Some ''Error'', d_formation = Some ''Error''\<rparr> f ?ph"
  have up: "upload_stage w env uid req = (?w1, Inr ?ph)"
    using assms(2-5) by (rule upload_stage_ok)
  have "find (\<lambda>s. s_sessionId s = b_sessionId req \<and> s_owner s = uid) (sessions ?w1) = Some session"
    using assms(8) by simp
  from analyse_stage_ok [OF assms(7) this assms(9)]
  have an: "analyse_stage ?w1 env uid req = (?w2, Inr (session, reply))" .
  have pr: "parse_reply env reply = Some errorPayload"
    using assms(10) by (rule parse_reply_malformed)
  note pe = persist_stage_error_payload [OF assms(11-13), of ?w2 req ?ph session f]
  have run: "chat w env uid req =
          Some (fst (persist_stage ?w2 env req ?ph session f (Some errorPayload)),
                Response 200 (ReplyWithClip (e_stringify env errorPayload) ?saved))"
    using assms(1) assms(6) up an pr pe
    by (simp add: chat_def chat_video_def Let_def)
  have cl: "clips (fst (persist_stage ?w2 env req ?ph session f (Some errorPayload)))
              = updateOne (\<lambda>c. c_id c = next_id w)
                  (fill_clip errorPayload
                     \<lparr>o_formation = Some ''Error'', d_formation = Some ''Error''\<rparr> f)
                  (clips w @ [?ph])"
    using pe by simp
  from run cl show ?thesis
    by blast
qed

text \<open>
  C3. In a video request whose steps up to the model's reply succeed, a reply that
  \<^verbatim>\<open>JSON.parse\<close> rejects does not end the request: provided the clip save and the two
  history appends are not rejected, the handler answers 200 with the fixed payload
  (title \<^verbatim>\<open>Analysis Error\<close>, both formations \<^verbatim>\<open>Error\<close>, the generic summary), and
  the clip created for the request is stored with that payload, title and formations.
\<close>

theorem malformed_reply_recovered:
  assumes "truthy (b_fileData req)"
    and "e_fault env WriteFile = None" and "e_fault env CloudUpload = None"
    and "e_fault env FileUpload = None" and "e_fault env ClipCreate = None"
    and "await_ingestion env = Some (Inr f)"
    and "e_fault env SessionFindOne = None"
    and "find (\<lambda>s. s_sessionId s = b_sessionId req \<and> s_owner s = uid) (sessions w) = Some session"
    and "snd (generateWithFallback (e_generate env)) = Inr (ResponseText reply)"
    and "e_parse env (cleanText reply) = SyntaxError"
    and "e_fault env ClipSave = None"
    and "e_fault env PushUserTurn = None" and "e_fault env PushModelTurn = None"
    and "\<forall>c\<in>set (clips w). c_id c \<noteq> next_id w"
  shows "\<exists>w' saved.
           chat w env uid req =
             Some (w', Response 200 (ReplyWithClip (e_stringify env errorPayload) saved)) \<and>
           clips w' = clips w @ [saved] \<and>
           saved = (placeholder w env uid req)
             \<lparr>c_title := ''Analysis Error'', c_o_formation := Some ''Error'',
              c_d_formation := Some ''Error'', c_formation := ''Error vs Error'',
              c_fullData := Some errorPayload, c_geminiFileUri := Some (g_uri f)\<rparr> \<and>
           a_title errorPayload = Some ''Analysis Error'' \<and>
           a_data errorPayload =
             Some \<lparr>o_formation = Some ''Error'', d_formation = Some ''Error''\<rparr> \<and>
           a_summary errorPayload =
             Some ''The AI analysis could not be processed. Please try again.''"
proof -
  let ?ph = "placeholder w env uid req"
  let ?saved = "fill_clip errorPayload
                  \<lparr>o_formation = Some ''Error'', d_formation = Some ''Error''\<rparr> f ?ph"
  from malformed_reply_effect [OF assms(1-13)]
  obtain w' where run: "chat w env uid req =
      Some (w', Response 200 (ReplyWithClip (e_stringify env errorPayload) ?saved))"
    and cl: "clips w' =
      updateOne (\<lambda>c. c_id c = next_id w)
        (fill_clip errorPayload
           \<lparr>o_formation = Some ''Error'', d_formation = Some ''Error''\<rparr> f)
        (clips w @ [?ph])"
    by blast
  have cl': "clips w' = clips w @ [?saved]"
    using cl assms(14) by (simp add: updateOne_append_fresh)
  have sv: "?saved = ?ph
             \<lparr>c_title := ''Analysis Error'', c_o_formation := Some ''Error'',
              c_d_formation := Some ''Error'', c_formation := ''Error vs Error'',
              c_fullData := Some errorPayload, c_geminiFileUri := Some (g_uri f)\<rparr>"
    by (rule fill_clip_error_payload)
  have ep: "a_title errorPayload = Some ''Analysis Error'' \<and>
           a_data errorPayload =
             Some \<lparr>o_formation = Some ''Error'', d_formation = Some ''Error''\<rparr> \<and>
           a_summary errorPayload =
             Some ''The AI analysis could not be processed. Please try again.''"
    by (simp add: errorPayload_def)
  from run cl' sv ep show ?thesis
    by blast
qed

lemma example_ingestion:
  "await_ingestion example_env = Some (Inr \<lparr>g_state = ACTIVE, g_uri = ''files/abc''\<rparr>)"
proof -
  have "poll (e_getFile example_env) 0 0 =
          Some (poll_outcome (e_getFile example_env 2) 2 (0 + 2000 * (2 - 0)))"
    by (rule poll_returns) (simp_all add: example_env_def still_processing_def)
  then show ?thesis
    by (simp add: await_ingestion_def example_env_def)
qed

lemma example_no_fault: "e_fault example_env s = None"
  by (simp add: example_env_def)

theorem malformed_reply_recovered_witness:
  "map_option snd (chat example_world example_env ''user_alice'' example_video) =
     Some (Response 200 (ReplyWithClip ''Analysis Error'' example_saved)) \<and>
   map_option (\<lambda>r. clips (fst r)) (chat example_world example_env ''user_alice'' example_video) =
     Some [example_saved]"
proof -
  have video: "truthy (b_fileData example_video)"
    by (simp add: example_video_def)
  have sess: "find (\<lambda>s. s_sessionId s = b_sessionId example_video \<and> s_owner s = ''user_alice'')
                (sessions example_world) = Some example_session"
    by (simp add: example_world_def example_session_def example_video_def)
  have gen: "snd (generateWithFallback (e_generate example_env)) =
               Inr (ResponseText ''Sorry, no JSON'')"
    by (simp add: example_invoker)
  have bad: "e_parse example_env (cleanText ''Sorry, no JSON'') = SyntaxError"
    by (simp add: example_env_def)
  have fresh: "\<forall>c\<in>set (clips example_world). c_id c \<noteq> next_id example_world"
    by (simp add: example_world_def)
  from malformed_reply_recovered
         [OF video example_no_fault example_no_fault example_no_fault example_no_fault
             example_ingestion example_no_fault sess gen bad
             example_no_fault example_no_fault example_no_fault fresh]
  obtain w' saved where run:
    "chat example_world example_env ''user_alice'' example_video =
       Some (w', Response 200 (ReplyWithClip (e_stringify example_env errorPayload) saved))"
    "clips w' = clips example_world @ [saved]"
    "saved = (placeholder example_world example_env ''user_alice'' example_video)
             \<lparr>c_title := ''Analysis Error'', c_o_formation := Some ''Error'',
              c_d_formation := Some ''Error'', c_formation := ''Error vs Error'',
              c_fullData := Some errorPayload,
              c_geminiFileUri := Some (g_uri \<lparr>g_state = ACTIVE, g_uri = ''files/abc''\<rparr>)\<rparr>"
    by blast
  have "saved = example_saved"
    using run(3)
    by (simp add: placeholder_def example_saved_def example_world_def example_env_def
          example_video_def)
  moreover have "e_stringify example_env errorPayload = ''Analysis Error''"
    by (simp add: example_env_def errorPayload_def)
  ultimately show ?thesis
    using run(1) run(2) by (simp add: example_world_def)
qed

lemma fill_clip_id [simp]: "c_id (fill_clip json fd f c) = c_id c"
  by (simp add: fill_clip_def)

section \<open>Concrete runs\<close>


lemma await_ingestion_cong [simp]:
  "await_ingestion (env\<lparr>e_fault := ft\<rparr>) = await_ingestion env"
  "await_ingestion (env\<lparr>e_generate := g\<rparr>) = await_ingestion env"
  "await_ingestion (env\<lparr>e_parse := pf\<rparr>) = await_ingestion env"
  by (simp_all add: await_ingestion_def)

lemma example_video_truthy: "truthy (b_fileData example_video)"
  by (simp add: example_video_def)






section \<open>Runs of the video branch\<close>

lemma uploaded_fields [simp]:
  "clips (uploaded w env uid req) = clips w @ [placeholder w env uid req]"
  "cloud (uploaded w env uid req) = insert (e_public_id env) (cloud w)"
  "files (uploaded w env uid req) = insert (tempPath env) (files w)"
  "sessions (uploaded w env uid req) = sessions w"
  "destroy_calls (uploaded w env uid req) = destroy_calls w"
  "unlink_calls (uploaded w env uid req) = unlink_calls w"
  "model_calls (uploaded w env uid req) = model_calls w"
  by (simp_all add: uploaded_def)

lemma answered_fields [simp]:
  "clips (answered w env uid req) = clips w @ [placeholder w env uid req]"
  "cloud (answered w env uid req) = insert (e_public_id env) (cloud w)"
  "files (answered w env uid req) = insert (tempPath env) (files w)"
  "sessions (answered w env uid req) = sessions w"
  "destroy_calls (answered w env uid req) = destroy_calls w"
  "unlink_calls (answered w env uid req) = unlink_calls w"
  by (simp_all add: answered_def)

lemma upload_stage_uploaded:
  assumes "e_fault env WriteFile = None" and "e_fault env CloudUpload = None"
    and "e_fault env FileUpload = None" and "e_fault env ClipCreate = None"
  shows "upload_stage w env uid req = (uploaded w env uid req, Inr (placeholder w env uid req))"
  using upload_stage_ok [OF assms] by (simp add: uploaded_def)



lemma run_after_reply:
  assumes "truthy (b_fileData req)"
    and "upload_stage w env uid req = (uploaded w env uid req, Inr (placeholder w env uid req))"
    and "reply_received w env uid req f session reply"
  shows "chat w env uid req =
           (case persist_stage (answered w env uid req) env req (placeholder w env uid req)
                   session f (parse_reply env reply) of
              (w3, Inl m) \<Rightarrow> Some (chat_catch env (Some (tempPath env)) w3 m)
            | (w3, Inr resp) \<Rightarrow> Some (w3, resp))"
proof -
  from assms(3) have r: "await_ingestion env = Some (Inr f)"
    "e_fault env SessionFindOne = None"
    "find (\<lambda>s. s_sessionId s = b_sessionId req \<and> s_owner s = uid)
       (sessions (uploaded w env uid req)) = Some session"
    "snd (generateWithFallback (e_generate env)) = Inr (ResponseText reply)"
    by (simp_all add: reply_received_def)
  have "analyse_stage (uploaded w env uid req) env uid req =
          (answered w env uid req, Inr (session, reply))"
    using analyse_stage_ok [OF r(2) r(3) r(4)] by (simp add: answered_def)
  with assms(1) assms(2) r(1) show ?thesis
    by (simp add: chat_def chat_video_def Let_def)
qed







lemma parse_reply_data: "parse_reply env reply = Some json \<Longrightarrow> a_data json \<noteq> None"
  by (auto simp: parse_reply_def errorPayload_def split: parsed.splits option.splits)





section \<open>Runs that fail late\<close>














lemma roster_save_fails_faults:
  "e_fault roster_save_fails SessionSave \<noteq> None"
  "s \<noteq> SessionSave \<Longrightarrow> e_fault roster_save_fails s = None"
  by (simp_all add: roster_save_fails_def)

lemma roster_save_fails_reply_received:
  "reply_received roster_world roster_save_fails ''user_alice'' example_video
     \<lparr>g_state = ACTIVE, g_uri = ''files/abc''\<rparr>
     (example_session\<lparr>s_roster := [example_profile]\<rparr>) ''Sorry, no JSON''"
  by (simp add: reply_received_def roster_save_fails_def parsing_env_def example_ingestion
        example_invoker roster_world_def example_world_def example_session_def
        example_video_def)

lemma roster_save_fails_parsed:
  "parse_reply roster_save_fails ''Sorry, no JSON'' = Some example_analysis"
  by (simp add: parse_reply_def roster_save_fails_def parsing_env_def example_analysis_def)






section \<open>Ownership in the text-only chat\<close>

text \<open>
  C1 fails in the text-only branch of \<^verbatim>\<open>/api/chat\<close>: both history appends select the
  session by \<^verbatim>\<open>sessionId\<close> alone. Here \<^verbatim>\<open>user_bob\<close> sends a message naming the session
  of \<^verbatim>\<open>user_alice\<close>, and his message and the model's reply are appended to her history.
\<close>

theorem text_chat_writes_foreign_session:
  "s_owner example_session = ''user_alice'' \<and>
   sessions example_world = [example_session] \<and>
   chat example_world example_env ''user_bob'' example_text =
     Some (\<lparr>sessions =
              [example_session
                 \<lparr>s_history := [\<lparr>t_role = ''user'', t_text = ''Hello''\<rparr>,
                                \<lparr>t_role = ''model'', t_text = ''Sorry, no JSON''\<rparr>]\<rparr>],
            clips = [], files = {}, cloud = {}, destroy_calls = [],
            model_calls = [''gemini-2.5-pro'', ''gemini-2.5-flash''], unlink_calls = [],
            next_id = 1\<rparr>,
           Response 200 (Reply ''Sorry, no JSON''))"
  by (simp add: chat_def chat_text_def example_text_def example_no_fault invoke_models_def
        example_invoker Let_def example_world_def example_session_def push_history_def
        chat_catch_def)

section \<open>The roster merge in the handler\<close>

lemma save_roster_players:
  assumes "a_players json = Some detected" and "detected \<noteq> []"
    and "e_fault env SessionSave = None"
  shows "save_roster w env session json =
           Inr (w\<lparr>sessions := updateOne (\<lambda>s. s_id s = s_id session)
                   (\<lambda>s. s\<lparr>s_roster := merge_roster (e_mergedAt env) (s_roster session) detected\<rparr>)
                   (sessions w)\<rparr>)"
  using assms by (simp add: save_roster_def)

lemma save_roster_none:
  assumes "a_players json = None \<or> a_players json = Some []"
  shows "save_roster w env session json = Inr w"
  using assms by (auto simp: save_roster_def)

lemma persist_stage_roster_saved:
  assumes "a_players json = Some detected" and "detected \<noteq> []" and "a_data json = Some fd"
    and "e_fault env SessionSave = None" and "e_fault env ClipSave = None"
    and "e_fault env PushUserTurn = None" and "e_fault env PushModelTurn = None"
  shows "\<exists>w3 resp. persist_stage w env req savedClip session f (Some json) = (w3, Inr resp) \<and>
           status resp = 200 \<and>
           sessions w3 =
             updateOne (\<lambda>s. s_sessionId s = b_sessionId req)
               (push_history \<lparr>t_role = ''model'', t_text = e_stringify env json\<rparr>)
               (updateOne (\<lambda>s. s_sessionId s = b_sessionId req)
                  (push_history \<lparr>t_role = ''user'', t_text = ''Uploaded Video Analysis''\<rparr>)
                  (updateOne (\<lambda>s. s_id s = s_id session)
                     (\<lambda>s. s\<lparr>s_roster :=
                             merge_roster (e_mergedAt env) (s_roster session) detected\<rparr>)
                     (sessions w)))"
  using assms
  by (simp add: persist_stage_def save_roster_players [OF assms(1) assms(2) assms(4)] Let_def)

lemma persist_stage_roster_rejected:
  assumes "a_players json = Some detected" and "detected \<noteq> []"
    and "e_fault env SessionSave \<noteq> None"
  shows "\<exists>m. persist_stage w env req savedClip session f (Some json) = (w, Inl m)"
  using assms by (auto simp: persist_stage_def save_roster_def)

lemma chat_roster_saved:
  assumes "truthy (b_fileData req)"
    and "e_fault env WriteFile = None" and "e_fault env CloudUpload = None"
    and "e_fault env FileUpload = None" and "e_fault env ClipCreate = None"
    and rr: "reply_received w env uid req f session reply"
    and pr: "parse_reply env reply = Some json"
    and pl: "a_players json = Some detected" "detected \<noteq> []"
    and ok: "e_fault env SessionSave = None" "e_fault env ClipSave = None"
      "e_fault env PushUserTurn = None" "e_fault env PushModelTurn = None"
  shows "\<exists>w' resp. chat w env uid req = Some (w', resp) \<and> status resp = 200 \<and>
           sessions w' =
             updateOne (\<lambda>s. s_sessionId s = b_sessionId req)
               (push_history \<lparr>t_role = ''model'', t_text = e_stringify env json\<rparr>)
               (updateOne (\<lambda>s. s_sessionId s = b_sessionId req)
                  (push_history \<lparr>t_role = ''user'', t_text = ''Uploaded Video Analysis''\<rparr>)
                  (updateOne (\<lambda>s. s_id s = s_id session)
                     (\<lambda>s. s\<lparr>s_roster :=
                             merge_roster (e_mergedAt env) (s_roster session) detected\<rparr>)
                     (sessions w)))"
proof -
  note up = upload_stage_uploaded [OF assms(2) assms(3) assms(4) assms(5), of w uid req]
  from parse_reply_data [OF pr] obtain fd where fd: "a_data json = Some fd"
    by blast
  from persist_stage_roster_saved [OF pl fd ok,
      of "answered w env uid req" req "placeholder w env uid req" session f]
  obtain w3 resp where
    "persist_stage (answered w env uid req) env req (placeholder w env uid req)
       session f (Some json) = (w3, Inr resp)"
    "status resp = 200"
    "sessions w3 =
             updateOne (\<lambda>s. s_sessionId s = b_sessionId req)
               (push_history \<lparr>t_role = ''model'', t_text = e_stringify env json\<rparr>)
               (updateOne (\<lambda>s. s_sessionId s = b_sessionId req)
                  (push_history \<lparr>t_role = ''user'', t_text = ''Uploaded Video Analysis''\<rparr>)
                  (updateOne (\<lambda>s. s_id s = s_id session)
                     (\<lambda>s. s\<lparr>s_roster :=
                             merge_roster (e_mergedAt env) (s_roster session) detected\<rparr>)
                     (sessions (answered w env uid req))))"
    by blast
  then show ?thesis
    unfolding run_after_reply [OF assms(1) up rr] pr
    by simp
qed

lemma chat_roster_rejected:
  assumes "truthy (b_fileData req)"
    and "e_fault env WriteFile = None" and "e_fault env CloudUpload = None"
    and "e_fault env FileUpload = None" and "e_fault env ClipCreate = None"
    and rr: "reply_received w env uid req f session reply"
    and pr: "parse_reply env reply = Some json"
    and pl: "a_players json = Some detected" "detected \<noteq> []"
    and no: "e_fault env SessionSave \<noteq> None"
  shows "\<exists>w' resp. chat w env uid req = Some (w', resp) \<and> status resp = 500 \<and>
           sessions w' = sessions w"
proof -
  note up = upload_stage_uploaded [OF assms(2) assms(3) assms(4) assms(5), of w uid req]
  from persist_stage_roster_rejected [OF pl no,
      of "answered w env uid req" req "placeholder w env uid req" session f]
  obtain m where
    "persist_stage (answered w env uid req) env req (placeholder w env uid req)
       session f (Some json) = (answered w env uid req, Inl m)"
    by blast
  then show ?thesis
    unfolding run_after_reply [OF assms(1) up rr] pr
    by (simp add: chat_catch_def)
qed

text \<open>
  C5. Merging one detected player: when the roster holds an entry with the player's
  identifier, the first such entry gets the observation appended to its notes, the
  weakness (when truthy) appended to its weaknesses, the new grade and the time of
  the merge; no entry is added and no identifier changes. When no entry matches, one
  entry with the player's identifier, position, grade, observation and weakness is
  appended.

  The loop merges the detected players one after the other in their order. It keeps
  the identifiers of the roster distinct, adds one entry for each detected identifier
  that the roster did not hold, and leaves as first entry with identifier \<open>k\<close> the
  old one (or a new one with the position of the first player detected as \<open>k\<close>) with
  the observations and truthy weaknesses of all players detected as \<open>k\<close> appended in
  order and the grade of the last of them.

  The handler: without detected players the roster save does nothing. With detected
  players, a video request that has received a reply which parses stores the merged
  roster on the caller's session and answers 200 when the roster save, the clip save
  and the history appends are not rejected, and answers 500 with the sessions as
  they were when the roster save is rejected.
\<close>

theorem roster_merge_upsert:
  "((\<exists>r\<in>set roster. r_identifier r = p_identifier p) \<longrightarrow>
      (\<exists>i<length roster.
         r_identifier (roster ! i) = p_identifier p \<and>
         (\<forall>j<i. r_identifier (roster ! j) \<noteq> p_identifier p) \<and>
         merge_player now roster p =
           roster[i := (roster ! i)
             \<lparr>r_grade := p_grade p,
              r_notes := r_notes (roster ! i) @ [p_observation p],
              r_weaknesses := r_weaknesses (roster ! i) @
                 (if truthy (p_weakness p) then [the (p_weakness p)] else []),
              r_last_updated := now\<rparr>]) \<and>
      length (merge_player now roster p) = length roster \<and>
      map r_identifier (merge_player now roster p) = map r_identifier roster) \<and>
   ((\<forall>r\<in>set roster. r_identifier r \<noteq> p_identifier p) \<longrightarrow>
      merge_player now roster p =
        roster @
          [\<lparr>r_identifier = p_identifier p, r_position = p_position p, r_grade = p_grade p,
            r_notes = [p_observation p],
            r_weaknesses = (if truthy (p_weakness p) then [the (p_weakness p)] else []),
            r_last_updated = now\<rparr>]) \<and>
   (distinct (map r_identifier roster) \<longrightarrow>
      distinct (map r_identifier (merge_roster now roster ps))) \<and>
   merge_roster now roster [] = roster \<and>
   merge_roster now roster (p # ps) = merge_roster now (merge_player now roster p) ps \<and>
   length (merge_roster now roster ps) =
     length roster + card (p_identifier ` set ps - r_identifier ` set roster) \<and>
   find (\<lambda>r. r_identifier r = k) (merge_roster now roster ps) =
     merged_entry now (find (\<lambda>r. r_identifier r = k) roster)
       (filter (\<lambda>p. p_identifier p = k) ps) \<and>
   (a_players json = None \<or> a_players json = Some [] \<longrightarrow>
      save_roster w env session json = Inr w) \<and>
   (truthy (b_fileData req) \<and>
    e_fault env WriteFile = None \<and> e_fault env CloudUpload = None \<and>
    e_fault env FileUpload = None \<and> e_fault env ClipCreate = None \<and>
    reply_received w env uid req f session reply \<and>
    parse_reply env reply = Some json \<and>
    a_players json = Some detected \<and> detected \<noteq> [] \<longrightarrow>
      (e_fault env SessionSave = None \<and> e_fault env ClipSave = None \<and>
       e_fault env PushUserTurn = None \<and> e_fault env PushModelTurn = None \<longrightarrow>
         (\<exists>w' resp. chat w env uid req = Some (w', resp) \<and> status resp = 200 \<and>
            sessions w' =
              updateOne (\<lambda>s. s_sessionId s = b_sessionId req)
                (push_history \<lparr>t_role = ''model'', t_text = e_stringify env json\<rparr>)
                (updateOne (\<lambda>s. s_sessionId s = b_sessionId req)
                   (push_history \<lparr>t_role = ''user'', t_text = ''Uploaded Video Analysis''\<rparr>)
                   (updateOne (\<lambda>s. s_id s = s_id session)
                      (\<lambda>s. s\<lparr>s_roster :=
                              merge_roster (e_mergedAt env) (s_roster session) detected\<rparr>)
                      (sessions w))))) \<and>
      (e_fault env SessionSave \<noteq> None \<longrightarrow>
         (\<exists>w' resp. chat w env uid req = Some (w', resp) \<and> status resp = 500 \<and>
            sessions w' = sessions w)))"
proof -
  have wl: "weakness_list (p_weakness p) =
              (if truthy (p_weakness p) then [the (p_weakness p)] else [])"
    by (cases "p_weakness p") simp_all
  have c1: "(\<exists>r\<in>set roster. r_identifier r = p_identifier p) \<longrightarrow>
      (\<exists>i<length roster.
         r_identifier (roster ! i) = p_identifier p \<and>
         (\<forall>j<i. r_identifier (roster ! j) \<noteq> p_identifier p) \<and>
         merge_player now roster p =
           roster[i := (roster ! i)
             \<lparr>r_grade := p_grade p,
              r_notes := r_notes (roster ! i) @ [p_observation p],
              r_weaknesses := r_weaknesses (roster ! i) @
                 (if truthy (p_weakness p) then [the (p_weakness p)] else []),
              r_last_updated := now\<rparr>]) \<and>
      length (merge_player now roster p) = length roster \<and>
      map r_identifier (merge_player now roster p) = map r_identifier roster"
  proof
    assume ex: "\<exists>r\<in>set roster. r_identifier r = p_identifier p"
    then have "findIndex (\<lambda>r. r_identifier r = p_identifier p) roster \<noteq> None"
      by (simp add: findIndex_None)
    then obtain i where i: "findIndex (\<lambda>r. r_identifier r = p_identifier p) roster = Some i"
      by blast
    note fi = findIndex_Some [OF i]
    have m: "merge_player now roster p =
           roster[i := (roster ! i)
             \<lparr>r_grade := p_grade p,
              r_notes := r_notes (roster ! i) @ [p_observation p],
              r_weaknesses := r_weaknesses (roster ! i) @
                 (if truthy (p_weakness p) then [the (p_weakness p)] else []),
              r_last_updated := now\<rparr>]"
      using i wl by (simp add: merge_player_def)
    have ids: "map r_identifier (merge_player now roster p) = map r_identifier roster"
    proof -
      from ex have "p_identifier p \<in> r_identifier ` set roster"
        by force
      then show ?thesis
        by (simp add: merge_player_identifiers)
    qed
    have len: "length (merge_player now roster p) = length roster"
      using m by simp
    from fi m have "\<exists>i<length roster.
         r_identifier (roster ! i) = p_identifier p \<and>
         (\<forall>j<i. r_identifier (roster ! j) \<noteq> p_identifier p) \<and>
         merge_player now roster p =
           roster[i := (roster ! i)
             \<lparr>r_grade := p_grade p,
              r_notes := r_notes (roster ! i) @ [p_observation p],
              r_weaknesses := r_weaknesses (roster ! i) @
                 (if truthy (p_weakness p) then [the (p_weakness p)] else []),
              r_last_updated := now\<rparr>]"
      by blast
    with len ids show "(\<exists>i<length roster.
         r_identifier (roster ! i) = p_identifier p \<and>
         (\<forall>j<i. r_identifier (roster ! j) \<noteq> p_identifier p) \<and>
         merge_player now roster p =
           roster[i := (roster ! i)
             \<lparr>r_grade := p_grade p,
              r_notes := r_notes (roster ! i) @ [p_observation p],
              r_weaknesses := r_weaknesses (roster ! i) @
                 (if truthy (p_weakness p) then [the (p_weakness p)] else []),
              r_last_updated := now\<rparr>]) \<and>
      length (merge_player now roster p) = length roster \<and>
      map r_identifier (merge_player now roster p) = map r_identifier roster"
      by simp
  qed
  have c2: "(\<forall>r\<in>set roster. r_identifier r \<noteq> p_identifier p) \<longrightarrow>
      merge_player now roster p =
        roster @
          [\<lparr>r_identifier = p_identifier p, r_position = p_position p, r_grade = p_grade p,
            r_notes = [p_observation p],
            r_weaknesses = (if truthy (p_weakness p) then [the (p_weakness p)] else []),
            r_last_updated = now\<rparr>]"
  proof
    assume "\<forall>r\<in>set roster. r_identifier r \<noteq> p_identifier p"
    then have "findIndex (\<lambda>r. r_identifier r = p_identifier p) roster = None"
      by (simp add: findIndex_None)
    then show "merge_player now roster p =
        roster @
          [\<lparr>r_identifier = p_identifier p, r_position = p_position p, r_grade = p_grade p,
            r_notes = [p_observation p],
            r_weaknesses = (if truthy (p_weakness p) then [the (p_weakness p)] else []),
            r_last_updated = now\<rparr>]"
      using wl by (simp add: merge_player_def)
  qed
  have c3: "distinct (map r_identifier roster) \<longrightarrow>
      distinct (map r_identifier (merge_roster now roster ps))"
    by (simp add: merge_roster_distinct)
  have c4: "merge_roster now roster [] = roster"
    by (simp add: merge_roster_def)
  have c5: "merge_roster now roster (p # ps) = merge_roster now (merge_player now roster p) ps"
    by (simp add: merge_roster_def)
  note c6 = merge_roster_length [of now roster ps]
  note c7 = find_merge_roster [of k now roster ps]
  have c8: "a_players json = None \<or> a_players json = Some [] \<longrightarrow>
      save_roster w env session json = Inr w"
    using save_roster_none [of json w env session] by blast
  have c9: "truthy (b_fileData req) \<and>
    e_fault env WriteFile = None \<and> e_fault env CloudUpload = None \<and>
    e_fault env FileUpload = None \<and> e_fault env ClipCreate = None \<and>
    reply_received w env uid req f session reply \<and>
    parse_reply env reply = Some json \<and>
    a_players json = Some detected \<and> detected \<noteq> [] \<longrightarrow>
      (e_fault env SessionSave = None \<and> e_fault env ClipSave = None \<and>
       e_fault env PushUserTurn = None \<and> e_fault env PushModelTurn = None \<longrightarrow>
         (\<exists>w' resp. chat w env uid req = Some (w', resp) \<and> status resp = 200 \<and>
            sessions w' =
              updateOne (\<lambda>s. s_sessionId s = b_sessionId req)
                (push_history \<lparr>t_role = ''model'', t_text = e_stringify env json\<rparr>)
                (updateOne (\<lambda>s. s_sessionId s = b_sessionId req)
                   (push_history \<lparr>t_role = ''user'', t_text = ''Uploaded Video Analysis''\<rparr>)
                   (updateOne (\<lambda>s. s_id s = s_id session)
                      (\<lambda>s. s\<lparr>s_roster :=
                              merge_roster (e_mergedAt env) (s_roster session) detected\<rparr>)
                      (sessions w))))) \<and>
      (e_fault env SessionSave \<noteq> None \<longrightarrow>
         (\<exists>w' resp. chat w env uid req = Some (w', resp) \<and> status resp = 500 \<and>
            sessions w' = sessions w))"
    using chat_roster_saved [of req env w uid f session reply json detected]
      chat_roster_rejected [of req env w uid f session reply json detected]
    by blast
  show ?thesis
    by (rule conjI c1 c2 c3 c4 c5 c6 c7 c8 c9)+
qed

lemma parsing_env_no_fault: "e_fault parsing_env s = None"
  by (simp add: parsing_env_def example_env_def)

lemma parsing_reply_received:
  "reply_received roster_world parsing_env ''user_alice'' example_video
     \<lparr>g_state = ACTIVE, g_uri = ''files/abc''\<rparr>
     (example_session\<lparr>s_roster := [example_profile]\<rparr>) ''Sorry, no JSON''"
  by (simp add: reply_received_def parsing_env_def example_ingestion example_invoker
        roster_world_def example_world_def example_session_def example_video_def
        example_no_fault)

lemma parsing_reply_parsed: "parse_reply parsing_env ''Sorry, no JSON'' = Some example_analysis"
  by (simp add: parse_reply_def parsing_env_def example_analysis_def)

theorem roster_merge_upsert_witness:
  "merge_player 1709 [example_profile] example_detected =
     [\<lparr>r_identifier = ''QB #12'', r_position = ''QB'', r_grade = ''A'',
       r_notes = [''Late read'', ''Quick release''], r_weaknesses = [''Footwork''],
       r_last_updated = 1709\<rparr>] \<and>
   merge_player 1709 [] example_detected =
     [\<lparr>r_identifier = ''QB #12'', r_position = ''QB'', r_grade = ''A'',
       r_notes = [''Quick release''], r_weaknesses = [''Footwork''],
       r_last_updated = 1709\<rparr>] \<and>
   distinct (map r_identifier
      (merge_roster 1709 [example_profile] [example_detected, example_detected])) \<and>
   length (merge_roster 1709 [example_profile] (the (a_players example_analysis))) = 2 \<and>
   find (\<lambda>r. r_identifier r = ''QB #12'')
      (merge_roster 1709 [example_profile] (the (a_players example_analysis))) =
     Some \<lparr>r_identifier = ''QB #12'', r_position = ''QB'', r_grade = ''B'',
           r_notes = [''Late read'', ''Quick release'', ''Held the ball''],
           r_weaknesses = [''Footwork''], r_last_updated = 1709\<rparr> \<and>
   map_option (\<lambda>r. (status (snd r), sessions (fst r)))
      (chat roster_world parsing_env ''user_alice'' example_video) =
     Some (200,
       [\<lparr>s_id = 0, s_sessionId = ''sess_1'', s_owner = ''user_alice'', s_title = ''Week 1'',
         s_type = ''team'', s_sport = ''football'',
         s_history = [\<lparr>t_role = ''user'', t_text = ''Uploaded Video Analysis''\<rparr>,
                      \<lparr>t_role = ''model'', t_text = ''Mesh''\<rparr>],
         s_roster =
           [\<lparr>r_identifier = ''QB #12'', r_position = ''QB'', r_grade = ''B'',
             r_notes = [''Late read'', ''Quick release'', ''Held the ball''],
             r_weaknesses = [''Footwork''], r_last_updated = 1709\<rparr>,
            \<lparr>r_identifier = ''WR #80'', r_position = ''WR'', r_grade = ''C'',
             r_notes = [''Rounded break''], r_weaknesses = [], r_last_updated = 1709\<rparr>]\<rparr>]) \<and>
   save_roster roster_world parsing_env (example_session\<lparr>s_roster := [example_profile]\<rparr>)
     errorPayload = Inr roster_world \<and>
   map_option (\<lambda>r. (status (snd r), sessions (fst r)))
      (chat roster_world roster_save_fails ''user_alice'' example_video) =
     Some (500, [example_session\<lparr>s_roster := [example_profile]\<rparr>])"
proof -
  note hit = roster_merge_upsert
      [where roster = "[example_profile]" and p = example_detected and now = 1709
         and ps = "[example_detected, example_detected]" and k = "''QB #12''"
         and json = example_analysis and w = roster_world and env = parsing_env
         and session = "example_session\<lparr>s_roster := [example_profile]\<rparr>"
         and req = example_video and uid = "''user_alice''"
         and f = "\<lparr>g_state = ACTIVE, g_uri = ''files/abc''\<rparr>"
         and reply = "''Sorry, no JSON''" and detected = "the (a_players example_analysis)"]
  note miss = roster_merge_upsert
      [where roster = "[]" and p = example_detected and now = 1709
         and ps = "[]" and k = "''QB #12''"
         and json = example_analysis and w = roster_world and env = parsing_env
         and session = "example_session\<lparr>s_roster := [example_profile]\<rparr>"
         and req = example_video and uid = "''user_alice''"
         and f = "\<lparr>g_state = ACTIVE, g_uri = ''files/abc''\<rparr>"
         and reply = "''Sorry, no JSON''" and detected = "the (a_players example_analysis)"]
  note loop = roster_merge_upsert
      [where roster = "[example_profile]" and p = example_detected and now = 1709
         and ps = "the (a_players example_analysis)" and k = "''QB #12''"
         and json = example_analysis and w = roster_world and env = parsing_env
         and session = "example_session\<lparr>s_roster := [example_profile]\<rparr>"
         and req = example_video and uid = "''user_alice''"
         and f = "\<lparr>g_state = ACTIVE, g_uri = ''files/abc''\<rparr>"
         and reply = "''Sorry, no JSON''" and detected = "the (a_players example_analysis)"]
  have a: "merge_player 1709 [example_profile] example_detected =
     [\<lparr>r_identifier = ''QB #12'', r_position = ''QB'', r_grade = ''A'',
       r_notes = [''Late read'', ''Quick release''], r_weaknesses = [''Footwork''],
       r_last_updated = 1709\<rparr>]"
    using hit [THEN conjunct1]
    by (simp add: example_profile_def example_detected_def)
  have b: "merge_player 1709 [] example_detected =
     [\<lparr>r_identifier = ''QB #12'', r_position = ''QB'', r_grade = ''A'',
       r_notes = [''Quick release''], r_weaknesses = [''Footwork''],
       r_last_updated = 1709\<rparr>]"
    using miss [THEN conjunct2, THEN conjunct1]
    by (simp add: example_detected_def)
  have c: "distinct (map r_identifier
      (merge_roster 1709 [example_profile] [example_detected, example_detected]))"
    using hit [THEN conjunct2, THEN conjunct2, THEN conjunct1]
    by simp
  have d: "length (merge_roster 1709 [example_profile] (the (a_players example_analysis))) = 2"
    using loop [THEN conjunct2, THEN conjunct2, THEN conjunct2, THEN conjunct2, THEN conjunct2,
             THEN conjunct1]
    by (simp add: example_analysis_def example_profile_def example_detected_def)
  have e: "find (\<lambda>r. r_identifier r = ''QB #12'')
      (merge_roster 1709 [example_profile] (the (a_players example_analysis))) =
     Some \<lparr>r_identifier = ''QB #12'', r_position = ''QB'', r_grade = ''B'',
           r_notes = [''Late read'', ''Quick release'', ''Held the ball''],
           r_weaknesses = [''Footwork''], r_last_updated = 1709\<rparr>"
    using loop [THEN conjunct2, THEN conjunct2, THEN conjunct2, THEN conjunct2, THEN conjunct2,
             THEN conjunct2, THEN conjunct1]
    by (simp add: example_analysis_def example_profile_def example_detected_def merged_entry_def)
  have pl: "a_players example_analysis = Some (the (a_players example_analysis))"
    "the (a_players example_analysis) \<noteq> []"
    by (simp_all add: example_analysis_def)
  have m: "merge_roster (e_mergedAt parsing_env) [example_profile]
             (the (a_players example_analysis)) =
           [\<lparr>r_identifier = ''QB #12'', r_position = ''QB'', r_grade = ''B'',
             r_notes = [''Late read'', ''Quick release'', ''Held the ball''],
             r_weaknesses = [''Footwork''], r_last_updated = 1709\<rparr>,
            \<lparr>r_identifier = ''WR #80'', r_position = ''WR'', r_grade = ''C'',
             r_notes = [''Rounded break''], r_weaknesses = [], r_last_updated = 1709\<rparr>]"
    by (simp add: merge_roster_def merge_player_def example_analysis_def example_profile_def
          example_detected_def parsing_env_def example_env_def)
  from loop [THEN conjunct2, THEN conjunct2, THEN conjunct2, THEN conjunct2, THEN conjunct2,
             THEN conjunct2, THEN conjunct2, THEN conjunct2]
    example_video_truthy parsing_env_no_fault parsing_reply_received parsing_reply_parsed pl
  obtain w' resp where run:
    "chat roster_world parsing_env ''user_alice'' example_video = Some (w', resp)"
    "status resp = 200"
    "sessions w' =
              updateOne (\<lambda>s. s_sessionId s = b_sessionId example_video)
                (push_history \<lparr>t_role = ''model'', t_text = e_stringify parsing_env example_analysis\<rparr>)
                (updateOne (\<lambda>s. s_sessionId s = b_sessionId example_video)
                   (push_history \<lparr>t_role = ''user'', t_text = ''Uploaded Video Analysis''\<rparr>)
                   (updateOne (\<lambda>s. s_id s = s_id (example_session\<lparr>s_roster := [example_profile]\<rparr>))
                      (\<lambda>s. s\<lparr>s_roster :=
                              merge_roster (e_mergedAt parsing_env)
                                (s_roster (example_session\<lparr>s_roster := [example_profile]\<rparr>))
                                (the (a_players example_analysis))\<rparr>)
                      (sessions roster_world)))"
    by blast
  have s: "sessions w' =
       [\<lparr>s_id = 0, s_sessionId = ''sess_1'', s_owner = ''user_alice'', s_title = ''Week 1'',
         s_type = ''team'', s_sport = ''football'',
         s_history = [\<lparr>t_role = ''user'', t_text = ''Uploaded Video Analysis''\<rparr>,
                      \<lparr>t_role = ''model'', t_text = ''Mesh''\<rparr>],
         s_roster =
           [\<lparr>r_identifier = ''QB #12'', r_position = ''QB'', r_grade = ''B'',
             r_notes = [''Late read'', ''Quick release'', ''Held the ball''],
             r_weaknesses = [''Footwork''], r_last_updated = 1709\<rparr>,
            \<lparr>r_identifier = ''WR #80'', r_position = ''WR'', r_grade = ''C'',
             r_notes = [''Rounded break''], r_weaknesses = [], r_last_updated = 1709\<rparr>]\<rparr>]"
    unfolding run(3)
    by (simp add: m roster_world_def example_world_def example_session_def example_video_def
          push_history_def)
      (simp add: parsing_env_def example_env_def example_analysis_def)
  have n: "save_roster roster_world parsing_env
             (example_session\<lparr>s_roster := [example_profile]\<rparr>) errorPayload = Inr roster_world"
  proof -
    note none = roster_merge_upsert
        [where roster = "[example_profile]" and p = example_detected and now = 1709
           and ps = "the (a_players example_analysis)" and k = "''QB #12''"
           and json = errorPayload and w = roster_world and env = parsing_env
           and session = "example_session\<lparr>s_roster := [example_profile]\<rparr>"
           and req = example_video and uid = "''user_alice''"
           and f = "\<lparr>g_state = ACTIVE, g_uri = ''files/abc''\<rparr>"
           and reply = "''Sorry, no JSON''" and detected = "the (a_players example_analysis)"]
    have np: "a_players errorPayload = None"
      by (simp add: errorPayload_def)
    from none [THEN conjunct2, THEN conjunct2, THEN conjunct2, THEN conjunct2, THEN conjunct2,
               THEN conjunct2, THEN conjunct2, THEN conjunct1] np
    show ?thesis
      by blast
  qed
  have r: "map_option (\<lambda>r. (status (snd r), sessions (fst r)))
      (chat roster_world roster_save_fails ''user_alice'' example_video) =
     Some (500, [example_session\<lparr>s_roster := [example_profile]\<rparr>])"
  proof -
    note rejected = roster_merge_upsert
        [where roster = "[example_profile]" and p = example_detected and now = 1709
           and ps = "the (a_players example_analysis)" and k = "''QB #12''"
           and json = example_analysis and w = roster_world and env = roster_save_fails
           and session = "example_session\<lparr>s_roster := [example_profile]\<rparr>"
           and req = example_video and uid = "''user_alice''"
           and f = "\<lparr>g_state = ACTIVE, g_uri = ''files/abc''\<rparr>"
           and reply = "''Sorry, no JSON''" and detected = "the (a_players example_analysis)"]
    have rnf: "e_fault roster_save_fails WriteFile = None"
      "e_fault roster_save_fails CloudUpload = None"
      "e_fault roster_save_fails FileUpload = None"
      "e_fault roster_save_fails ClipCreate = None"
      by (simp_all add: roster_save_fails_faults)
    from rejected [THEN conjunct2, THEN conjunct2, THEN conjunct2, THEN conjunct2, THEN conjunct2,
               THEN conjunct2, THEN conjunct2, THEN conjunct2]
      example_video_truthy rnf roster_save_fails_reply_received roster_save_fails_parsed pl
      roster_save_fails_faults(1)
    obtain w2 resp2 where
      "chat roster_world roster_save_fails ''user_alice'' example_video = Some (w2, resp2)"
      "status resp2 = 500" "sessions w2 = sessions roster_world"
      by blast
    then show ?thesis
      by (simp add: roster_world_def example_world_def)
  qed
  from a b c d e run(1) run(2) s n r show ?thesis
    by simp
qed

end
